theory Spec2Isabelle
  imports Complex_Main "HOL-Library.Monad_Syntax"
begin

section \<open>Shared types (lib/llm/config.ts)\<close>

text \<open>
  A JavaScript exception is a value of type \<open>error\<close>; a promise that rejects, or a
  function that throws, is \<open>Inl e\<close>, one that resolves or returns is \<open>Inr v\<close>.
\<close>

datatype error = Error string

datatype role = System | User | Assistant

record LLMMessage =
  role :: role
  content :: string
  name :: "string option"

record LLMResponseChunk =
  chunk_content :: string
  chunk_done :: bool

record LLMRequestOptions =
  systemPrompt :: "string option"
  req_messages :: "LLMMessage list"
  temperature :: "real option"
  maxTokens :: "int option"
  streamCallback :: bool
  useSearch :: "bool option"

text \<open>
  In \<open>LLMRequestOptions\<close> the field \<open>messages\<close> of the source is \<open>req_messages\<close> (the name
  \<open>messages\<close> is kept for the conversation record), and \<open>streamCallback\<close> only says whether
  a callback is present, which is all the providers test. JavaScript truthiness of an
  optional string: \<open>undefined\<close> and the empty string are falsy.
\<close>

definition truthy :: "string option \<Rightarrow> bool" where
  "truthy s = (case s of None \<Rightarrow> False | Some t \<Rightarrow> t \<noteq> [])"

text \<open>\<open>try { body } catch (error) { handler }\<close> on results.\<close>

definition try_catch :: "error + 'a \<Rightarrow> (error \<Rightarrow> error + 'a) \<Rightarrow> error + 'a" where
  "try_catch body handler = (case body of Inl e \<Rightarrow> handler e | Inr v \<Rightarrow> Inr v)"

section \<open>Retry policy: \<open>withRetry\<close> (lib/llm/config.ts, lines 85-109)\<close>

text \<open>
  The operation \<open>fn\<close> is a thunk whose outcome may differ from one invocation to the
  next; \<open>withRetry\<close> is its only caller, so \<open>fn i\<close> is the outcome of its invocation
  number \<open>i\<close> (from zero). The trace lists what the loop does, in order: each invocation
  of \<open>fn\<close> and each \<open>setTimeout\<close> sleep with the delay it asks for.
  \<open>maxRetries\<close> and \<open>baseDelay\<close> are integers here (JavaScript numbers in the source).
  A rejection carries an \<open>Error\<close> object, as the cast \<open>error as Error\<close> has it, so
  \<open>lastError\<close> is falsy only while it is still \<open>null\<close>.
\<close>

datatype retry_event = Invoked nat | Slept int

function withRetry_loop ::
  "(nat \<Rightarrow> error + 'a) \<Rightarrow> int \<Rightarrow> int \<Rightarrow> nat \<Rightarrow> error option \<Rightarrow> retry_event list
     \<Rightarrow> (error + 'a) \<times> retry_event list" where
  "withRetry_loop fn maxRetries baseDelay attempt lastError tr =
     (if int attempt < maxRetries then
        (case fn attempt of
           Inr v \<Rightarrow> (Inr v, tr @ [Invoked attempt])
         | Inl e \<Rightarrow>
             withRetry_loop fn maxRetries baseDelay (Suc attempt) (Some e)
               (tr @ [Invoked attempt, Slept (baseDelay * 2 ^ attempt)]))
      else
        (Inl (case lastError of Some e \<Rightarrow> e
                | None \<Rightarrow> Error ''All retry attempts failed''), tr))"
  by pat_completeness auto
termination
  by (relation "measure (\<lambda>(fn, maxRetries, baseDelay, attempt, lastError, tr).
        nat (maxRetries - int attempt))") auto

declare withRetry_loop.simps [simp del]

definition withRetry ::
  "(nat \<Rightarrow> error + 'a) \<Rightarrow> int \<Rightarrow> int \<Rightarrow> (error + 'a) \<times> retry_event list" where
  "withRetry fn maxRetries baseDelay = withRetry_loop fn maxRetries baseDelay 0 None []"

text \<open>The default arguments: \<open>maxRetries = 3\<close>, \<open>baseDelay = 1000\<close>.\<close>

definition withRetry_default :: "(nat \<Rightarrow> error + 'a) \<Rightarrow> (error + 'a) \<times> retry_event list" where
  "withRetry_default fn = withRetry fn 3 1000"

text \<open>The events of attempts \<open>a, ..., b - 1\<close> when each of them fails.\<close>

definition failed_attempts :: "int \<Rightarrow> nat \<Rightarrow> nat \<Rightarrow> retry_event list" where
  "failed_attempts baseDelay a b =
     concat (map (\<lambda>i. [Invoked i, Slept (baseDelay * 2 ^ i)]) [a..<b])"

fun is_Invoked :: "retry_event \<Rightarrow> bool" where
  "is_Invoked (Invoked i) = True"
| "is_Invoked (Slept d) = False"

definition invocations :: "retry_event list \<Rightarrow> nat" where
  "invocations tr = length (filter is_Invoked tr)"

definition sleeps :: "retry_event list \<Rightarrow> int list" where
  "sleeps tr = concat (map (\<lambda>ev. case ev of Slept d \<Rightarrow> [d] | Invoked i \<Rightarrow> []) tr)"

section \<open>Strings and the JSON text of a conversation\<close>

text \<open>
  Strings are lists of 8-bit characters: the code units 0 to 255 of a JavaScript string.
  \<open>trim\<close> removes the white space of that range from both ends; \<open>Array.prototype.slice\<close>
  with one argument counts a negative start from the end.
\<close>

definition is_space :: "char \<Rightarrow> bool" where
  "is_space c = (c \<in> set [CHR 0x09, CHR 0x0A, CHR 0x0B, CHR 0x0C, CHR 0x0D, CHR 0x20, CHR 0xA0])"

definition trim :: "string \<Rightarrow> string" where
  "trim s = rev (dropWhile is_space (rev (dropWhile is_space s)))"

definition js_slice_from :: "int \<Rightarrow> 'a list \<Rightarrow> 'a list" where
  "js_slice_from start xs =
     (let len = int (length xs);
          k = (if start < 0 then max (len + start) 0 else min start len)
      in drop (nat k) xs)"

fun split_on :: "(char \<Rightarrow> bool) \<Rightarrow> string \<Rightarrow> string list" where
  "split_on p [] = [[]]"
| "split_on p (c # cs) =
     (if p c then [] # split_on p cs
      else (case split_on p cs of [] \<Rightarrow> [[c]] | x # xs \<Rightarrow> (c # x) # xs))"

fun join :: "string \<Rightarrow> string list \<Rightarrow> string" where
  "join sep [] = []"
| "join sep [x] = x"
| "join sep (x # xs) = x @ sep @ join sep xs"



record ConversationState =
  messages :: "LLMMessage list"
  summary :: "string option"
  createdAt :: nat
  updatedAt :: nat

text \<open>
  \<open>JSON.stringify\<close> and \<open>JSON.parse\<close> are built into the language; they are modelled on
  the values this program stores, conversation records. \<open>stringify_conv\<close> writes the JSON
  text of a record: the keys in the order in which \<open>addMessage\<close> creates them, an absent
  optional field left out, strings quoted as \<open>JSON.stringify\<close> quotes them, the time stamps
  (non-negative integers, as \<open>Date.now()\<close> gives) in decimal. \<open>parse_conv\<close> reads that text
  back; it is \<open>JSON.parse\<close> followed by the unchecked cast to \<open>ConversationState\<close> of
  \<open>getAndParse\<close>. It yields \<open>None\<close> where \<open>JSON.parse\<close> throws, and also on JSON text of
  another shape, which the cast's type excludes. A \<open>\u\<close> escape above 00FF names no
  character of this model and is refused. The list of messages is read with fuel, the
  length of the text, which is more than the number of messages it can hold.
\<close>

definition hex_digit :: "nat \<Rightarrow> char" where
  "hex_digit d = (if d < 10 then char_of (48 + d) else char_of (87 + d))"

definition hex_value :: "char \<Rightarrow> nat option" where
  "hex_value c =
     (let n = of_char c :: nat in
      if 48 \<le> n \<and> n \<le> 57 then Some (n - 48)
      else if 97 \<le> n \<and> n \<le> 102 then Some (n - 87)
      else if 65 \<le> n \<and> n \<le> 70 then Some (n - 55)
      else None)"

definition quote_char :: "char \<Rightarrow> string" where
  "quote_char c =
     (if c = CHR 0x22 then [CHR 0x5C, CHR 0x22]
      else if c = CHR 0x5C then [CHR 0x5C, CHR 0x5C]
      else if c = CHR 0x08 then [CHR 0x5C, CHR ''b'']
      else if c = CHR 0x0C then [CHR 0x5C, CHR ''f'']
      else if c = CHR 0x0A then [CHR 0x5C, CHR ''n'']
      else if c = CHR 0x0D then [CHR 0x5C, CHR ''r'']
      else if c = CHR 0x09 then [CHR 0x5C, CHR ''t'']
      else if (of_char c :: nat) < 32 then
        [CHR 0x5C, CHR ''u'', CHR ''0'', CHR ''0'',
         hex_digit ((of_char c :: nat) div 16), hex_digit ((of_char c :: nat) mod 16)]
      else [c])"

definition stringify_string :: "string \<Rightarrow> string" where
  "stringify_string s = CHR 0x22 # concat (map quote_char s) @ [CHR 0x22]"

definition unescape :: "char \<Rightarrow> char option" where
  "unescape e =
     (if e = CHR 0x22 then Some (CHR 0x22)
      else if e = CHR 0x5C then Some (CHR 0x5C)
      else if e = CHR ''/'' then Some (CHR ''/'')
      else if e = CHR ''b'' then Some (CHR 0x08)
      else if e = CHR ''f'' then Some (CHR 0x0C)
      else if e = CHR ''n'' then Some (CHR 0x0A)
      else if e = CHR ''r'' then Some (CHR 0x0D)
      else if e = CHR ''t'' then Some (CHR 0x09)
      else None)"

definition hex4 :: "char \<Rightarrow> char \<Rightarrow> char \<Rightarrow> char \<Rightarrow> nat option" where
  "hex4 a b c d =
     do { x \<leftarrow> hex_value a; y \<leftarrow> hex_value b; z \<leftarrow> hex_value c; u \<leftarrow> hex_value d;
          Some (((x * 16 + y) * 16 + z) * 16 + u) }"

fun parse_chars :: "string \<Rightarrow> (string \<times> string) option" where
  "parse_chars [] = None"
| "parse_chars (c # cs) =
     (if c = CHR 0x22 then Some ([], cs)
      else if c = CHR 0x5C then
        (case cs of
           [] \<Rightarrow> None
         | e # cs' \<Rightarrow>
             if e = CHR ''u'' then
               (case cs' of
                  h1 # h2 # h3 # h4 # cs'' \<Rightarrow>
                    (case hex4 h1 h2 h3 h4 of
                       None \<Rightarrow> None
                     | Some n \<Rightarrow>
                         if n < 256 then
                           (case parse_chars cs'' of
                              None \<Rightarrow> None
                            | Some (s, rest) \<Rightarrow> Some (char_of n # s, rest))
                         else None)
                | _ \<Rightarrow> None)
             else
               (case unescape e of
                  None \<Rightarrow> None
                | Some d \<Rightarrow>
                    (case parse_chars cs' of
                       None \<Rightarrow> None
                     | Some (s, rest) \<Rightarrow> Some (d # s, rest))))
      else if (of_char c :: nat) < 32 then None
      else
        (case parse_chars cs of
           None \<Rightarrow> None
         | Some (s, rest) \<Rightarrow> Some (c # s, rest)))"



definition digit_char :: "nat \<Rightarrow> char" where
  "digit_char d = char_of (48 + d)"

function digits :: "nat \<Rightarrow> string" where
  "digits n = (if n < 10 then [digit_char n] else digits (n div 10) @ [digit_char (n mod 10)])"
  by pat_completeness auto
termination
  by (relation "measure id") auto

declare digits.simps [simp del]

definition is_digit :: "char \<Rightarrow> bool" where
  "is_digit c = (48 \<le> (of_char c :: nat) \<and> (of_char c :: nat) \<le> 57)"

definition digits_value :: "string \<Rightarrow> nat" where
  "digits_value ds = foldl (\<lambda>a c. 10 * a + (of_char c - 48)) 0 ds"

definition parse_nat :: "string \<Rightarrow> (nat \<times> string) option" where
  "parse_nat s =
     (let ds = takeWhile is_digit s; rest = dropWhile is_digit s in
      if ds = [] then None
      else if 1 < length ds \<and> hd ds = CHR ''0'' then None
      else Some (digits_value ds, rest))"

definition expect :: "string \<Rightarrow> string \<Rightarrow> string option" where
  "expect p s = (if take (length p) s = p then Some (drop (length p) s) else None)"

definition json_key :: "string \<Rightarrow> string" where
  "json_key k = CHR 0x22 # k @ [CHR 0x22, CHR '':'']"

fun role_name :: "role \<Rightarrow> string" where
  "role_name System = ''system''"
| "role_name User = ''user''"
| "role_name Assistant = ''assistant''"

definition role_of_name :: "string \<Rightarrow> role option" where
  "role_of_name s =
     (if s = ''system'' then Some System
      else if s = ''user'' then Some User
      else if s = ''assistant'' then Some Assistant
      else None)"

definition stringify_message :: "LLMMessage \<Rightarrow> string" where
  "stringify_message m =
     ''{'' @ json_key ''role'' @ stringify_string (role_name (role m)) @
     '','' @ json_key ''content'' @ stringify_string (content m) @
     (case name m of None \<Rightarrow> [] | Some n \<Rightarrow> '','' @ json_key ''name'' @ stringify_string n) @
     ''}''"

definition parse_message :: "string \<Rightarrow> (LLMMessage \<times> string) option" where
  "parse_message s =
     do { s1 \<leftarrow> expect (''{'' @ json_key ''role'' @ [CHR 0x22]) s;
          (rs, s2) \<leftarrow> parse_chars s1;
          r \<leftarrow> role_of_name rs;
          s3 \<leftarrow> expect ('','' @ json_key ''content'' @ [CHR 0x22]) s2;
          (c, s4) \<leftarrow> parse_chars s3;
          (case expect ''}'' s4 of
             Some s5 \<Rightarrow> Some (\<lparr>role = r, content = c, name = None\<rparr>, s5)
           | None \<Rightarrow>
               do { s6 \<leftarrow> expect ('','' @ json_key ''name'' @ [CHR 0x22]) s4;
                    (n, s7) \<leftarrow> parse_chars s6;
                    s8 \<leftarrow> expect ''}'' s7;
                    Some (\<lparr>role = r, content = c, name = Some n\<rparr>, s8) }) }"

fun stringify_elems :: "LLMMessage list \<Rightarrow> string" where
  "stringify_elems [] = []"
| "stringify_elems [m] = stringify_message m"
| "stringify_elems (m # ms) = stringify_message m @ '','' @ stringify_elems ms"

definition stringify_messages :: "LLMMessage list \<Rightarrow> string" where
  "stringify_messages ms = ''['' @ stringify_elems ms @ '']''"

fun parse_elems :: "nat \<Rightarrow> string \<Rightarrow> (LLMMessage list \<times> string) option" where
  "parse_elems 0 s = None"
| "parse_elems (Suc fuel) s =
     (case parse_message s of
        None \<Rightarrow> None
      | Some (m, s1) \<Rightarrow>
          (case s1 of
             [] \<Rightarrow> None
           | c # s2 \<Rightarrow>
               if c = CHR '']'' then Some ([m], s2)
               else if c = CHR '','' then
                 (case parse_elems fuel s2 of
                    None \<Rightarrow> None
                  | Some (ms, s3) \<Rightarrow> Some (m # ms, s3))
               else None))"

definition parse_messages :: "string \<Rightarrow> (LLMMessage list \<times> string) option" where
  "parse_messages s =
     (case expect ''[]'' s of
        Some s1 \<Rightarrow> Some ([], s1)
      | None \<Rightarrow> do { s1 \<leftarrow> expect ''['' s; parse_elems (length s1) s1 })"

definition stringify_conv :: "ConversationState \<Rightarrow> string" where
  "stringify_conv c =
     ''{'' @ json_key ''messages'' @ stringify_messages (messages c) @
     '','' @ json_key ''createdAt'' @ digits (createdAt c) @
     '','' @ json_key ''updatedAt'' @ digits (updatedAt c) @
     (case summary c of None \<Rightarrow> [] | Some t \<Rightarrow> '','' @ json_key ''summary'' @ stringify_string t) @
     ''}''"

definition parse_conv :: "string \<Rightarrow> ConversationState option" where
  "parse_conv s =
     do { s1 \<leftarrow> expect (''{'' @ json_key ''messages'') s;
          (ms, s2) \<leftarrow> parse_messages s1;
          s3 \<leftarrow> expect ('','' @ json_key ''createdAt'') s2;
          (ca, s4) \<leftarrow> parse_nat s3;
          s5 \<leftarrow> expect ('','' @ json_key ''updatedAt'') s4;
          (ua, s6) \<leftarrow> parse_nat s5;
          (case expect ''}'' s6 of
             Some s7 \<Rightarrow>
               if s7 = [] then Some \<lparr>messages = ms, summary = None, createdAt = ca, updatedAt = ua\<rparr>
               else None
           | None \<Rightarrow>
               do { s8 \<leftarrow> expect ('','' @ json_key ''summary'' @ [CHR 0x22]) s6;
                    (t, s9) \<leftarrow> parse_chars s8;
                    s10 \<leftarrow> expect ''}'' s9;
                    if s10 = [] then
                      Some \<lparr>messages = ms, summary = Some t, createdAt = ca, updatedAt = ua\<rparr>
                    else None }) }"

definition JSON_stringify :: "ConversationState \<Rightarrow> string" where
  "JSON_stringify c = stringify_conv c"

definition JSON_parse :: "string \<Rightarrow> error + ConversationState" where
  "JSON_parse s = (case parse_conv s of None \<Rightarrow> Inl (Error ''SyntaxError'') | Some c \<Rightarrow> Inr c)"

section \<open>The world: keyed store, clock, and what the callers observe\<close>

text \<open>
  The keyed store \<open>kv\<close> of \<open>@vercel/kv\<close> is a collaborator outside the repository: a map from
  keys to text with the expiry (seconds) the entry was written with. Its operations throw
  when the store is unreachable (\<open>kv_up\<close> is false). The expiry is recorded and never acted
  on: entries do not vanish with the passing of time in this model.

  The source imports the default client (lib/redis.ts, line 4), which deserialises what
  it reads: \<open>get\<close> does not give back the stored text but the value that text denotes as
  JSON, and the text itself only when it is not JSON. A \<open>kv_value\<close> is what \<open>get\<close> resolves
  with; \<open>deserialize\<close> is the client's reading of a stored text: the JSON text of a
  conversation comes back as an object, a JSON string literal as the string it denotes,
  anything else as the text (JSON values of other kinds are not written by this program
  and are left as text). \<open>to_string\<close> is the conversion to a string that \<open>JSON.parse\<close>
  applies to its argument, and \<open>js_truthy\<close> the truth value of \<open>result ? ... : null\<close>.

  \<open>Date.now()\<close> reads \<open>now\<close>,
  which stands still during one operation and is set between operations;
  \<open>formattedTime\<close> and \<open>formattedDate\<close> are what \<open>toLocaleTimeString\<close> and
  \<open>toLocaleDateString\<close> give at that moment. \<open>calls\<close> logs each invocation of a provider by
  the client (as the mocks of the tests do), \<open>delivered\<close> each invocation of the caller's
  \<open>onChunk\<close> callback, which is taken not to throw.
\<close>

datatype provider_ref = Primary | Fallback nat

datatype call = GenerateCall provider_ref LLMRequestOptions | StreamCall provider_ref LLMRequestOptions

record world =
  kv :: "string \<Rightarrow> (string \<times> nat) option"
  kv_up :: bool
  now :: nat
  formattedTime :: string
  formattedDate :: string
  calls :: "call list"
  delivered :: "(string \<times> bool) list"

definition kv_set :: "world \<Rightarrow> string \<Rightarrow> string \<Rightarrow> nat \<Rightarrow> error + world" where
  "kv_set w key v ex =
     (if kv_up w then Inr (w\<lparr>kv := (kv w)(key \<mapsto> (v, ex))\<rparr>) else Inl (Error ''kv unreachable''))"

datatype kv_value = KvString string | KvObject ConversationState

definition parse_string_literal :: "string \<Rightarrow> string option" where
  "parse_string_literal t =
     (case t of
        [] \<Rightarrow> None
      | c # cs \<Rightarrow>
          if c = CHR 0x22 then
            (case parse_chars cs of
               Some (s, rest) \<Rightarrow> if rest = [] then Some s else None
             | None \<Rightarrow> None)
          else None)"

definition deserialize :: "string \<Rightarrow> kv_value" where
  "deserialize t =
     (case parse_conv t of
        Some c \<Rightarrow> KvObject c
      | None \<Rightarrow>
          (case parse_string_literal t of
             Some s \<Rightarrow> KvString s
           | None \<Rightarrow> KvString t))"

fun to_string :: "kv_value \<Rightarrow> string" where
  "to_string (KvString s) = s"
| "to_string (KvObject c) = ''[object Object]''"

fun js_truthy :: "kv_value \<Rightarrow> bool" where
  "js_truthy (KvString s) = (s \<noteq> [])"
| "js_truthy (KvObject c) = True"

definition kv_get :: "world \<Rightarrow> string \<Rightarrow> error + kv_value option" where
  "kv_get w key =
     (if kv_up w then Inr (map_option (\<lambda>(t, ex). deserialize t) (kv w key))
      else Inl (Error ''kv unreachable''))"

definition kv_del :: "world \<Rightarrow> string \<Rightarrow> error + world" where
  "kv_del w key =
     (if kv_up w then Inr (w\<lparr>kv := (kv w)(key := None)\<rparr>) else Inl (Error ''kv unreachable''))"

subsection \<open>lib/redis.ts\<close>

definition setWithExpiry :: "world \<Rightarrow> string \<Rightarrow> ConversationState \<Rightarrow> nat \<Rightarrow> bool \<times> world" where
  "setWithExpiry w key v expiryInSeconds =
     (case kv_set w key (JSON_stringify v) expiryInSeconds of
        Inr w' \<Rightarrow> (True, w')
      | Inl e \<Rightarrow> (False, w))"

definition getAndParse :: "world \<Rightarrow> string \<Rightarrow> ConversationState option" where
  "getAndParse w key =
     (case kv_get w key of
        Inl e \<Rightarrow> None
      | Inr None \<Rightarrow> None
      | Inr (Some result) \<Rightarrow>
          if js_truthy result then
            (case JSON_parse (to_string result) of Inl e \<Rightarrow> None | Inr v \<Rightarrow> Some v)
          else None)"

section \<open>Conversation memory (lib/llm/memory.ts)\<close>

definition MEMORY_EXPIRY_SECONDS :: nat where
  "MEMORY_EXPIRY_SECONDS = 24 * 60 * 60"

definition SUMMARY_MESSAGE_THRESHOLD :: nat where
  "SUMMARY_MESSAGE_THRESHOLD = 10"

definition MAX_MESSAGES_TO_KEEP :: nat where
  "MAX_MESSAGES_TO_KEEP = 50"

definition getRedisKey :: "string \<Rightarrow> string" where
  "getRedisKey conversationId = ''conv:'' @ conversationId"

text \<open>
  \<open>getAndParse\<close> catches every error itself, so the \<open>catch\<close> of \<open>loadConversation\<close> has
  nothing to catch. \<open>saveConversation\<close> writes \<open>updatedAt\<close> into the record it is given
  before storing it; the caller holds that same object, so the updated record is returned
  with the success flag.
\<close>

definition loadConversation :: "world \<Rightarrow> string \<Rightarrow> ConversationState option" where
  "loadConversation w conversationId = getAndParse w (getRedisKey conversationId)"

definition saveConversation ::
  "world \<Rightarrow> string \<Rightarrow> ConversationState \<Rightarrow> bool \<times> ConversationState \<times> world" where
  "saveConversation w conversationId state =
     (let redisKey = getRedisKey conversationId;
          state' = state\<lparr>updatedAt := now w\<rparr>;
          (saved, w') = setWithExpiry w redisKey state' MEMORY_EXPIRY_SECONDS
      in (saved, state', w'))"

definition first_sentence :: "string \<Rightarrow> string" where
  "first_sentence c =
     (case filter (\<lambda>s. 0 < length (trim s))
             (split_on (\<lambda>ch. ch = CHR ''.'' \<or> ch = CHR ''!'' \<or> ch = CHR ''?'') c) of
        [] \<Rightarrow> []
      | firstSentence # rest \<Rightarrow> trim firstSentence @ ''.'')"

definition generateConversationSummary :: "LLMMessage list \<Rightarrow> string" where
  "generateConversationSummary msgs =
     (let userMessages = map content (filter (\<lambda>m. role m = User) msgs) in
      if length userMessages = 0 then ''No conversation history.''
      else
        (let sentences = filter (\<lambda>s. 0 < length s) (map first_sentence userMessages);
             topicSentences = js_slice_from (- 5) sentences
         in ''The conversation covers these topics: '' @ join '' '' topicSentences))"

definition prune :: "LLMMessage list \<Rightarrow> LLMMessage list" where
  "prune msgs =
     (if MAX_MESSAGES_TO_KEEP < length msgs then
        (let systemMessage = (if role (msgs ! 0) = System then [msgs ! 0] else []);
             recentMessages =
               js_slice_from (- int MAX_MESSAGES_TO_KEEP + int (length systemMessage)) msgs
         in systemMessage @ recentMessages)
      else msgs)"

text \<open>
  \<open>addMessage\<close> in two parts: \<open>updated_conversation\<close> is the record it builds from what
  it loaded (lines 83 to 106: create when absent, push, prune, summarise when due), with
  \<open>prune\<close> the pruning block; then the record is saved.
\<close>

definition updated_conversation ::
  "nat \<Rightarrow> ConversationState option \<Rightarrow> LLMMessage \<Rightarrow> ConversationState" where
  "updated_conversation t loaded message =
     (let conversation =
            (case loaded of
               None \<Rightarrow> \<lparr>messages = [], summary = None, createdAt = t, updatedAt = t\<rparr>
             | Some c \<Rightarrow> c);
          pushed = messages conversation @ [message];
          pruned = prune pushed;
          summary' =
            (if SUMMARY_MESSAGE_THRESHOLD \<le> length pruned \<and> \<not> truthy (summary conversation)
             then Some (generateConversationSummary pruned)
             else summary conversation)
      in conversation\<lparr>messages := pruned, summary := summary'\<rparr>)"

definition addMessage :: "world \<Rightarrow> string \<Rightarrow> LLMMessage \<Rightarrow> ConversationState option \<times> world" where
  "addMessage w conversationId message =
     (let conversation =
            updated_conversation (now w) (loadConversation w conversationId) message;
          (saved, conversation', w') = saveConversation w conversationId conversation
      in (if saved then Some conversation' else None, w'))"

definition deleteConversation :: "world \<Rightarrow> string \<Rightarrow> bool \<times> world" where
  "deleteConversation w conversationId =
     (case kv_del w (getRedisKey conversationId) of
        Inr w' \<Rightarrow> (True, w')
      | Inl e \<Rightarrow> (False, w))"

text \<open>A run of appends to one conversation, each at its own clock reading.\<close>

fun appends :: "world \<Rightarrow> string \<Rightarrow> (nat \<times> LLMMessage) list \<Rightarrow> world" where
  "appends w conversationId [] = w"
| "appends w conversationId ((t, m) # rest) =
     appends (snd (addMessage (w\<lparr>now := t\<rparr>) conversationId m)) conversationId rest"

section \<open>The system prompt (lib/llm/config.ts, lines 45-75)\<close>

definition generateSystemPrompt :: "string \<Rightarrow> string \<Rightarrow> string option \<Rightarrow> string" where
  "generateSystemPrompt fmtTime fmtDate memory =
     (let systemPrompt =
            ''You are a helpful AI assistant. The current time is '' @ fmtTime @ '' on '' @
            fmtDate @ ''.'' @
            '' You have access to the internet and can search for current information when needed.''
      in if truthy memory \<and> trim (the memory) \<noteq> [] then
           systemPrompt @ [CHR 0x0A, CHR 0x0A] @
           ''Here'' @ [CHR 0x27] @
           ''s a summary of our previous conversation that may be relevant to this interaction:'' @
           [CHR 0x0A] @ the memory
         else systemPrompt)"

section \<open>The client (lib/llm/client.ts)\<close>

text \<open>
  A provider, as the client sees it (interface \<open>LLMProvider\<close>): \<open>generateResponse\<close> resolves
  (\<open>Inr\<close>) or rejects (\<open>Inl\<close>); \<open>generateStreamingResponse\<close> is an async generator, here
  the finite list of chunks it yields and the error it then throws, if any.
\<close>

record LLMProvider =
  generateResponse :: "LLMRequestOptions \<Rightarrow> error + string"
  generateStreamingResponse :: "LLMRequestOptions \<Rightarrow> LLMResponseChunk list \<times> error option"
  searchInternet :: "string \<Rightarrow> error + string"

record LLMClient =
  provider :: LLMProvider
  conversationId :: string
  fallbackProviders :: "LLMProvider list"

record generate_options =
  opt_systemPrompt :: "string option"
  opt_temperature :: "real option"
  opt_maxTokens :: "int option"
  opt_useMemory :: "bool option"
  opt_useSearch :: "bool option"

definition generate_apology :: string where
  "generate_apology =
     ''Sorry, I encountered an error while processing your request. Please try again later.''"

definition streaming_apology :: string where
  "streaming_apology =
     ''Sorry, I encountered an error while processing your streaming request. Please try again later.''"

definition log_call :: "call \<Rightarrow> world \<Rightarrow> world" where
  "log_call c w = w\<lparr>calls := calls w @ [c]\<rparr>"

text \<open>
  The steps before the provider is called, the same in both operations: load the
  history, push the user's message, store it, build the system prompt. The result is the
  request handed to every provider, and the world after the store was written.
\<close>

definition prepare_request ::
  "LLMClient \<Rightarrow> world \<Rightarrow> string \<Rightarrow> generate_options \<Rightarrow> bool \<times> LLMRequestOptions \<times> world" where
  "prepare_request c w prompt options =
     (let useMemory = (case opt_useMemory options of None \<Rightarrow> True | Some b \<Rightarrow> b);
          useSearch = (case opt_useSearch options of None \<Rightarrow> False | Some b \<Rightarrow> b);
          conversation = (if useMemory then loadConversation w (conversationId c) else None);
          msgs = (case conversation of None \<Rightarrow> [] | Some conv \<Rightarrow> messages conv);
          memoryContext = (case conversation of None \<Rightarrow> None | Some conv \<Rightarrow> summary conv);
          userMessage = \<lparr>role = User, content = prompt, name = None\<rparr>;
          msgs' = msgs @ [userMessage];
          w1 = (if useMemory then snd (addMessage w (conversationId c) userMessage) else w);
          enhancedSystemPrompt =
            (if truthy (opt_systemPrompt options) then the (opt_systemPrompt options)
             else generateSystemPrompt (formattedTime w1) (formattedDate w1) memoryContext)
      in (useMemory,
          \<lparr>systemPrompt = Some enhancedSystemPrompt, req_messages = msgs',
            temperature = opt_temperature options, maxTokens = opt_maxTokens options,
            streamCallback = False, useSearch = Some useSearch\<rparr>,
          w1))"

definition save_reply :: "bool \<Rightarrow> string \<Rightarrow> string \<Rightarrow> world \<Rightarrow> world" where
  "save_reply useMemory cid response w =
     (if useMemory then
        snd (addMessage w cid \<lparr>role = Assistant, content = response, name = None\<rparr>)
      else w)"

text \<open>
  The loop over the fallback providers: \<open>Some\<close> the first response that resolves,
  \<open>None\<close> when the loop runs out (every fallback rejected, each rejection swallowed).
\<close>

fun generate_fallbacks ::
  "bool \<Rightarrow> string \<Rightarrow> LLMRequestOptions \<Rightarrow> nat \<Rightarrow> LLMProvider list \<Rightarrow> world
     \<Rightarrow> string option \<times> world" where
  "generate_fallbacks useMemory cid req i [] w = (None, w)"
| "generate_fallbacks useMemory cid req i (fallbackProvider # rest) w =
     (let w1 = log_call (GenerateCall (Fallback i) req) w in
      case generateResponse fallbackProvider req of
        Inr response \<Rightarrow> (Some response, save_reply useMemory cid response w1)
      | Inl fallbackError \<Rightarrow> generate_fallbacks useMemory cid req (Suc i) rest w1)"

definition generateResponse_body ::
  "LLMClient \<Rightarrow> world \<Rightarrow> string \<Rightarrow> generate_options \<Rightarrow> (error + string) \<times> world" where
  "generateResponse_body c w prompt options =
     (let (useMemory, req, w1) = prepare_request c w prompt options;
          w2 = log_call (GenerateCall Primary req) w1
      in case generateResponse (provider c) req of
           Inr response \<Rightarrow> (Inr response, save_reply useMemory (conversationId c) response w2)
         | Inl e \<Rightarrow>
             (case generate_fallbacks useMemory (conversationId c) req 0 (fallbackProviders c) w2 of
                (Some response, w3) \<Rightarrow> (Inr response, w3)
              | (None, w3) \<Rightarrow> (Inl e, w3)))"

definition LLMClient_generateResponse ::
  "LLMClient \<Rightarrow> world \<Rightarrow> string \<Rightarrow> generate_options \<Rightarrow> (error + string) \<times> world" where
  "LLMClient_generateResponse c w prompt options =
     (case generateResponse_body c w prompt options of
        (r, w') \<Rightarrow> (try_catch r (\<lambda>e. Inr generate_apology), w'))"

text \<open>
  The \<open>for await\<close> loop over a provider's chunks: each chunk is added to the buffer and
  handed to \<open>onChunk\<close>.
\<close>

fun consume :: "LLMResponseChunk list \<Rightarrow> string \<Rightarrow> world \<Rightarrow> string \<times> world" where
  "consume [] fullResponse w = (fullResponse, w)"
| "consume (chunk # rest) fullResponse w =
     consume rest (fullResponse @ chunk_content chunk)
       (w\<lparr>delivered := delivered w @ [(chunk_content chunk, chunk_done chunk)]\<rparr>)"

definition stream_attempt ::
  "bool \<Rightarrow> string \<Rightarrow> LLMRequestOptions \<Rightarrow> provider_ref \<Rightarrow> LLMProvider \<Rightarrow> world
     \<Rightarrow> (error + string) \<times> world" where
  "stream_attempt useMemory cid req which p w =
     (let w1 = log_call (StreamCall which req) w;
          (chunks, failure) = generateStreamingResponse p req;
          (fullResponse, w2) = consume chunks [] w1
      in case failure of
           Some e \<Rightarrow> (Inl e, w2)
         | None \<Rightarrow> (Inr fullResponse, save_reply useMemory cid fullResponse w2))"

fun stream_fallbacks ::
  "bool \<Rightarrow> string \<Rightarrow> LLMRequestOptions \<Rightarrow> nat \<Rightarrow> LLMProvider list \<Rightarrow> world
     \<Rightarrow> string option \<times> world" where
  "stream_fallbacks useMemory cid req i [] w = (None, w)"
| "stream_fallbacks useMemory cid req i (fallbackProvider # rest) w =
     (case stream_attempt useMemory cid req (Fallback i) fallbackProvider w of
        (Inr fallbackResponse, w1) \<Rightarrow> (Some fallbackResponse, w1)
      | (Inl fallbackError, w1) \<Rightarrow> stream_fallbacks useMemory cid req (Suc i) rest w1)"

definition generateStreamingResponse_body ::
  "LLMClient \<Rightarrow> world \<Rightarrow> string \<Rightarrow> generate_options \<Rightarrow> (error + string) \<times> world" where
  "generateStreamingResponse_body c w prompt options =
     (let (useMemory, req, w1) = prepare_request c w prompt options
      in case stream_attempt useMemory (conversationId c) req Primary (provider c) w1 of
           (Inr fullResponse, w2) \<Rightarrow> (Inr fullResponse, w2)
         | (Inl e, w2) \<Rightarrow>
             (case stream_fallbacks useMemory (conversationId c) req 0 (fallbackProviders c) w2 of
                (Some response, w3) \<Rightarrow> (Inr response, w3)
              | (None, w3) \<Rightarrow> (Inl e, w3)))"

definition LLMClient_generateStreamingResponse ::
  "LLMClient \<Rightarrow> world \<Rightarrow> string \<Rightarrow> generate_options \<Rightarrow> (error + string) \<times> world" where
  "LLMClient_generateStreamingResponse c w prompt options =
     (case generateStreamingResponse_body c w prompt options of
        (Inr r, w') \<Rightarrow> (Inr r, w')
      | (Inl e, w') \<Rightarrow>
          (Inr streaming_apology,
           w'\<lparr>delivered := delivered w' @ [(streaming_apology, True)]\<rparr>))"

section \<open>Provider implementations (lib/llm/providers)\<close>

text \<open>
  The HTTP transport (axios) and the search backend are collaborators outside the
  repository. \<open>axios_post env request i\<close> is the outcome of the POST that invocation number
  \<open>i\<close> of \<open>makeRequest\<close> inside \<open>withRetry\<close> issues: an error, or the \<open>data\<close> of the
  response. A streamed body is the finite list of network chunks received, as decoded text,
  and the error that ends the stream early, if any. \<open>search\<close> is the provider's own
  \<open>searchInternet\<close>, which catches every error and so always returns text. The reads of a
  parsed frame (\<open>JSON.parse\<close> and the property accesses on its untyped result) are
  \<open>delta_content\<close> for the chat-completions frames and \<open>cohere_event\<close> for Cohere's:
  \<open>Inl\<close> where one of them throws.
\<close>

datatype chat_choice = Choice "string option"

datatype http_data =
    NoData
  | CohereJson "string option"
  | ChatJson "chat_choice list option"
  | StreamBody "string list" "error option"

datatype http_body =
    ChatBody string "LLMMessage list" real int bool
  | CohereBody string string "(role \<times> string) list" string real int bool

record http_request =
  url :: string
  body :: http_body
  headers :: "(string \<times> string) list"
  responseType :: string

datatype cohere_frame = TextGeneration "string option" | StreamEnd | OtherEvent

record provider_env =
  axios_post :: "http_request \<Rightarrow> nat \<Rightarrow> error + http_data"
  search :: "string \<Rightarrow> string"
  optimizeSearchQuery :: "string \<Rightarrow> string"
  env_formattedTime :: string
  env_formattedDate :: string
  APP_URL :: string
  delta_content :: "string \<Rightarrow> error + string option"
  cohere_event :: "string \<Rightarrow> error + cohere_frame"
  text_match :: "string \<Rightarrow> string option"

record provider_config =
  apiKey :: string
  baseUrl :: string
  defaultModel :: string

definition search_block :: "string \<Rightarrow> string \<Rightarrow> string" where
  "search_block searchQuery searchResults =
     ''Search results for '' @ [CHR 0x22] @ searchQuery @ [CHR 0x22] @ '':'' @ [CHR 0x0A] @
     searchResults @ [CHR 0x0A, CHR 0x0A] @
     ''Please use these search results to provide an up-to-date response.''"

text \<open>
  The search step of \<open>makeRequest\<close>: the text to add to the request, if any.
\<close>

definition search_addition :: "provider_env \<Rightarrow> LLMRequestOptions \<Rightarrow> string option" where
  "search_addition env options =
     (let msgs = req_messages options in
      if useSearch options = Some True \<and> 0 < length msgs \<and> role (last msgs) = User then
        (let userQuery = content (last msgs);
             searchQuery = optimizeSearchQuery env userQuery;
             searchResults = search env searchQuery
         in if searchResults \<noteq> [] \<and> trim searchResults \<noteq> ''No search results found.''
            then Some (search_block searchQuery searchResults)
            else None)
      else None)"

definition request_prompt :: "provider_env \<Rightarrow> LLMRequestOptions \<Rightarrow> string" where
  "request_prompt env options =
     (if truthy (systemPrompt options) then the (systemPrompt options)
      else generateSystemPrompt (env_formattedTime env) (env_formattedDate env) None)"

definition request_temperature :: "LLMRequestOptions \<Rightarrow> real" where
  "request_temperature options = (case temperature options of None \<Rightarrow> 7 / 10 | Some t \<Rightarrow> t)"

definition request_maxTokens :: "LLMRequestOptions \<Rightarrow> int" where
  "request_maxTokens options = (case maxTokens options of None \<Rightarrow> 2048 | Some n \<Rightarrow> n)"

definition chat_messages :: "provider_env \<Rightarrow> LLMRequestOptions \<Rightarrow> LLMMessage list" where
  "chat_messages env options =
     (let apiMessages =
            \<lparr>role = System, content = request_prompt env options, name = None\<rparr> #
            req_messages options
      in case search_addition env options of
           None \<Rightarrow> apiMessages
         | Some block \<Rightarrow> apiMessages @ [\<lparr>role = System, content = block, name = None\<rparr>])"

definition response_type :: "LLMRequestOptions \<Rightarrow> string" where
  "response_type options = (if streamCallback options then ''stream'' else ''json'')"

subsection \<open>OpenRouter and GLHF (chat-completions wire format)\<close>

definition OpenRouter_makeRequest ::
  "provider_env \<Rightarrow> provider_config \<Rightarrow> LLMRequestOptions \<Rightarrow> nat \<Rightarrow> error + http_data" where
  "OpenRouter_makeRequest env cfg options i =
     axios_post env
       \<lparr>url = baseUrl cfg @ ''/chat/completions'',
        body = ChatBody (defaultModel cfg) (chat_messages env options)
                 (request_temperature options) (request_maxTokens options)
                 (streamCallback options),
        headers = [(''Content-Type'', ''application/json''),
                   (''Authorization'', ''Bearer '' @ apiKey cfg),
                   (''HTTP-Referer'', APP_URL env),
                   (''X-Title'', ''My Application'')],
        responseType = response_type options\<rparr> i"

definition GLHF_makeRequest ::
  "provider_env \<Rightarrow> provider_config \<Rightarrow> LLMRequestOptions \<Rightarrow> nat \<Rightarrow> error + http_data" where
  "GLHF_makeRequest env cfg options i =
     axios_post env
       \<lparr>url = baseUrl cfg @ ''/chat/completions'',
        body = ChatBody (defaultModel cfg) (chat_messages env options)
                 (request_temperature options) (request_maxTokens options)
                 (streamCallback options),
        headers = [(''Content-Type'', ''application/json''),
                   (''Authorization'', ''Bearer '' @ apiKey cfg)],
        responseType = response_type options\<rparr> i"

text \<open>
  Reading \<open>response.data.choices[0].message.content\<close>: the validity test throws on
  missing data, missing \<open>choices\<close> or an empty list; reading \<open>content\<close> of a choice with no
  \<open>message\<close> throws a \<open>TypeError\<close>.
\<close>

definition chat_content :: "string \<Rightarrow> http_data \<Rightarrow> error + string" where
  "chat_content invalid d =
     (case d of
        ChatJson (Some (Choice (Some c) # rest)) \<Rightarrow> Inr c
      | ChatJson (Some (Choice None # rest)) \<Rightarrow> Inl (Error ''TypeError'')
      | _ \<Rightarrow> Inl (Error invalid))"

definition bind_result :: "error + 'a \<Rightarrow> ('a \<Rightarrow> error + 'b) \<Rightarrow> error + 'b" where
  "bind_result r f = (case r of Inl e \<Rightarrow> Inl e | Inr v \<Rightarrow> f v)"

definition OpenRouter_generateResponse ::
  "provider_env \<Rightarrow> provider_config \<Rightarrow> LLMRequestOptions \<Rightarrow> error + string" where
  "OpenRouter_generateResponse env cfg options =
     try_catch
       (bind_result (fst (withRetry_default (OpenRouter_makeRequest env cfg options)))
          (chat_content ''Invalid response format from OpenRouter API''))
       (\<lambda>e. Inr generate_apology)"

definition GLHF_generateResponse ::
  "provider_env \<Rightarrow> provider_config \<Rightarrow> LLMRequestOptions \<Rightarrow> error + string" where
  "GLHF_generateResponse env cfg options =
     try_catch
       (bind_result (fst (withRetry_default (GLHF_makeRequest env cfg options)))
          (chat_content ''Invalid response format from GLHF API''))
       (\<lambda>e. Inr generate_apology)"









subsection \<open>Cohere (lib/llm/providers/cohere.ts)\<close>

definition cohere_preamble :: "provider_env \<Rightarrow> LLMRequestOptions \<Rightarrow> string" where
  "cohere_preamble env options =
     (let preamble =
            (case search_addition env options of
               None \<Rightarrow> request_prompt env options
             | Some block \<Rightarrow> request_prompt env options @ [CHR 0x0A, CHR 0x0A] @ block)
      in foldl (\<lambda>p msg. if role msg = System then p @ [CHR 0x0A] @ content msg else p)
           preamble (req_messages options))"

definition cohere_history :: "LLMRequestOptions \<Rightarrow> (role \<times> string) list" where
  "cohere_history options =
     (let chatHistory =
            map (\<lambda>msg. (role msg, content msg))
              (filter (\<lambda>msg. role msg \<noteq> System) (req_messages options))
      in if 1 < length chatHistory then butlast chatHistory else [])"

definition Cohere_makeRequest ::
  "provider_env \<Rightarrow> provider_config \<Rightarrow> LLMRequestOptions \<Rightarrow> nat \<Rightarrow> error + http_data" where
  "Cohere_makeRequest env cfg options i =
     (let msgs = req_messages options in
      axios_post env
        \<lparr>url = baseUrl cfg @ ''/chat'',
         body = CohereBody (defaultModel cfg)
                  (if 0 < length msgs \<and> role (last msgs) = User then content (last msgs) else [])
                  (cohere_history options) (cohere_preamble env options)
                  (request_temperature options) (request_maxTokens options)
                  (streamCallback options),
         headers = [(''Content-Type'', ''application/json''),
                    (''Authorization'', ''Bearer '' @ apiKey cfg),
                    (''Cohere-Version'', ''2023-05-24'')],
         responseType = response_type options\<rparr> i)"

definition cohere_text :: "http_data \<Rightarrow> error + string" where
  "cohere_text d =
     (case d of
        CohereJson (Some t) \<Rightarrow>
          if t = [] then Inl (Error ''Invalid response format from Cohere API'') else Inr t
      | _ \<Rightarrow> Inl (Error ''Invalid response format from Cohere API''))"

definition Cohere_generateResponse ::
  "provider_env \<Rightarrow> provider_config \<Rightarrow> LLMRequestOptions \<Rightarrow> error + string" where
  "Cohere_generateResponse env cfg options =
     try_catch
       (bind_result (fst (withRetry_default (Cohere_makeRequest env cfg options))) cohere_text)
       (\<lambda>e. Inr generate_apology)"



section \<open>The provider registry (lib/llm/factory.ts)\<close>

text \<open>
  Provider objects live in a heap, a list of the objects allocated so far; a reference
  is an index into it, and two references denote the same instance when they are equal.
  The constructors of \<open>GLHFProvider\<close>, \<open>OpenRouterProvider\<close> and \<open>CohereProvider\<close> store the
  model, or their default when none is passed. \<open>toLowerCase\<close> acts on the letters A to Z;
  no other character is lowered to an ASCII letter of the four names.
\<close>

text \<open>
  Modelled from the spec: the class \<open>GroqProvider\<close> (lib/llm/providers/groq.ts) is missing
  from the sources. A provider instance is configuration only (name, selected model,
  credential, endpoint), so its object is the constructor's argument, the optional model,
  as it was passed.
\<close>

datatype provider_object =
    GroqProvider "string option"
  | GLHFProvider string
  | OpenRouterProvider string
  | CohereProvider string

record LLMFactory =
  providers :: "string \<Rightarrow> nat option"
  heap :: "provider_object list"

definition lower_char :: "char \<Rightarrow> char" where
  "lower_char c =
     (if 65 \<le> (of_char c :: nat) \<and> (of_char c :: nat) \<le> 90 then char_of ((of_char c :: nat) + 32)
      else c)"

definition toLowerCase :: "string \<Rightarrow> string" where
  "toLowerCase s = map lower_char s"

definition with_default :: "string \<Rightarrow> string option \<Rightarrow> string" where
  "with_default d m = (case m of None \<Rightarrow> d | Some x \<Rightarrow> x)"

definition construct :: "string \<Rightarrow> string option \<Rightarrow> error + provider_object" where
  "construct p m =
     (let l = toLowerCase p in
      if l = ''groq'' then Inr (GroqProvider m)
      else if l = ''glhf'' then Inr (GLHFProvider (with_default ''mixtral-8x7b-32768'' m))
      else if l = ''openrouter'' then
        Inr (OpenRouterProvider (with_default ''anthropic/claude-3-opus'' m))
      else if l = ''cohere'' then Inr (CohereProvider (with_default ''command-r-plus'' m))
      else Inl (Error (''Unknown provider: '' @ p)))"

definition providerKey :: "string \<Rightarrow> string option \<Rightarrow> string" where
  "providerKey p m = p @ (if truthy m then ''-'' @ the m else [])"

definition getProvider :: "LLMFactory \<Rightarrow> string \<Rightarrow> string option \<Rightarrow> (error + nat) \<times> LLMFactory" where
  "getProvider f p m =
     (case providers f (providerKey p m) of
        Some r \<Rightarrow> (Inr r, f)
      | None \<Rightarrow>
          (case construct p m of
             Inl e \<Rightarrow> (Inl e, f)
           | Inr providerInstance \<Rightarrow>
               (Inr (length (heap f)),
                f\<lparr>providers := (providers f)(providerKey p m \<mapsto> length (heap f)),
                  heap := heap f @ [providerInstance]\<rparr>)))"


text \<open>
  The registries the program can be in: the empty one of process start, after any
  sequence of \<open>getProvider\<close> calls (each with its name and optional model).
\<close>

fun resolve_all :: "LLMFactory \<Rightarrow> (string \<times> string option) list \<Rightarrow> LLMFactory" where
  "resolve_all f [] = f"
| "resolve_all f ((p, m) # rest) = resolve_all (snd (getProvider f p m)) rest"


text \<open>
  What every reachable registry satisfies: a cached reference points into the heap, and
  no two keys share a reference.
\<close>

definition registry_ok :: "LLMFactory \<Rightarrow> bool" where
  "registry_ok f =
     ((\<forall>k r. providers f k = Some r \<longrightarrow> r < length (heap f)) \<and>
      (\<forall>k k' r. providers f k = Some r \<and> providers f k' = Some r \<longrightarrow> k = k'))"



section \<open>Chunk sequences that end properly\<close>

text \<open>
  A chunk sequence is well terminated when it is not empty, its last chunk has
  \<open>done = true\<close> and no earlier chunk has.
\<close>

definition well_terminated :: "LLMResponseChunk list \<Rightarrow> bool" where
  "well_terminated cs =
     (cs \<noteq> [] \<and> chunk_done (last cs) \<and> list_all (\<lambda>c. \<not> chunk_done c) (butlast cs))"

section \<open>Test doubles\<close>

text \<open>
  The mock providers of tests/integration/llm-integration.test.ts (a method mocked with a
  bare \<open>jest.fn()\<close> yields \<open>undefined\<close>, on which the client's use throws), a store that
  is empty and reachable, a transport whose stream carries one frame that is not JSON, and
  a transport that refuses every connection.
\<close>

definition mockPrimaryProvider :: LLMProvider where
  "mockPrimaryProvider =
     \<lparr>generateResponse = (\<lambda>req. Inl (Error ''Primary failed'')),
      generateStreamingResponse = (\<lambda>req. ([], Some (Error ''TypeError''))),
      searchInternet = (\<lambda>q. Inr [])\<rparr>"

definition mockFallbackProvider :: LLMProvider where
  "mockFallbackProvider =
     \<lparr>generateResponse = (\<lambda>req. Inr ''Fallback response''),
      generateStreamingResponse = (\<lambda>req. ([], Some (Error ''TypeError''))),
      searchInternet = (\<lambda>q. Inr [])\<rparr>"

definition mockStreamProvider :: LLMProvider where
  "mockStreamProvider =
     \<lparr>generateResponse = (\<lambda>req. Inl (Error ''TypeError'')),
      generateStreamingResponse =
        (\<lambda>req. ([\<lparr>chunk_content = ''Stream '', chunk_done = False\<rparr>,
                 \<lparr>chunk_content = ''chunk '', chunk_done = False\<rparr>,
                 \<lparr>chunk_content = ''test'', chunk_done = True\<rparr>], None)),
      searchInternet = (\<lambda>q. Inr [])\<rparr>"

definition test_world :: world where
  "test_world =
     \<lparr>kv = (\<lambda>k. None), kv_up = True, now = 1700000000000, formattedTime = ''3:45 PM'',
      formattedDate = ''Wednesday, April 16, 2025'', calls = [], delivered = []\<rparr>"

definition no_options :: generate_options where
  "no_options =
     \<lparr>opt_systemPrompt = None, opt_temperature = None, opt_maxTokens = None,
      opt_useMemory = None, opt_useSearch = None\<rparr>"


definition openrouter_config :: provider_config where
  "openrouter_config =
     \<lparr>apiKey = ''key'', baseUrl = ''https://openrouter.ai/api/v1'',
      defaultModel = ''anthropic/claude-3-opus''\<rparr>"

definition hello_request :: LLMRequestOptions where
  "hello_request =
     \<lparr>systemPrompt = None, req_messages = [\<lparr>role = User, content = ''hello'', name = None\<rparr>],
      temperature = None, maxTokens = None, streamCallback = False, useSearch = None\<rparr>"

definition unreachable_env :: provider_env where
  "unreachable_env =
     \<lparr>axios_post = (\<lambda>rq i. Inl (Error ''ECONNREFUSED'')),
      search = (\<lambda>q. ''No search results found.''),
      optimizeSearchQuery = (\<lambda>q. q),
      env_formattedTime = ''3:45 PM'',
      env_formattedDate = ''Wednesday, April 16, 2025'',
      APP_URL = ''http://localhost:3000'',
      delta_content = (\<lambda>s. Inl (Error ''SyntaxError'')),
      cohere_event = (\<lambda>s. Inl (Error ''SyntaxError'')),
      text_match = (\<lambda>s. None)\<rparr>"

definition sysA :: LLMMessage where
  "sysA = \<lparr>role = System, content = ''A'', name = None\<rparr>"

definition userU :: LLMMessage where
  "userU = \<lparr>role = User, content = ''Hi'', name = None\<rparr>"

section \<open>Properties of the retry policy\<close>

lemma failed_attempts_empty [simp]: "failed_attempts B a a = []"
  by (simp add: failed_attempts_def)

lemma failed_attempts_step:
  "a < b \<Longrightarrow> failed_attempts B a b = [Invoked a, Slept (B * 2 ^ a)] @ failed_attempts B (Suc a) b"
  by (simp add: failed_attempts_def upt_conv_Cons)

lemma invocations_failed_attempts: "invocations (failed_attempts B a b) = b - a"
  unfolding invocations_def failed_attempts_def
  by (induction b) auto

lemma sleeps_failed_attempts: "sleeps (failed_attempts B a b) = map (\<lambda>i. B * 2 ^ i) [a..<b]"
  unfolding sleeps_def failed_attempts_def
  by (induction b) auto

lemma withRetry_loop_success:
  assumes "\<forall>i. a \<le> i \<and> i < k \<longrightarrow> (\<exists>e. fn i = Inl e)"
    and "fn k = Inr v" and "a \<le> k" and "int k < M"
  shows "withRetry_loop fn M B a le tr = (Inr v, tr @ failed_attempts B a k @ [Invoked k])"
  using assms
proof (induction "k - a" arbitrary: a le tr)
  case 0
  then have "a = k" by simp
  with 0 show ?case by (simp add: withRetry_loop.simps [of fn M B k])
next
  case (Suc n)
  then have lt: "a < k" by simp
  with Suc.prems obtain e where e: "fn a = Inl e" by auto
  have "withRetry_loop fn M B (Suc a) (Some e) (tr @ [Invoked a, Slept (B * 2 ^ a)]) =
      (Inr v, (tr @ [Invoked a, Slept (B * 2 ^ a)]) @ failed_attempts B (Suc a) k @ [Invoked k])"
    using Suc.prems Suc.hyps(2) lt by (intro Suc.hyps(1)) auto
  with lt e Suc.prems show ?case
    by (simp add: withRetry_loop.simps [of fn M B a] failed_attempts_step)
qed

lemma withRetry_loop_exhausted:
  assumes "\<forall>i. a \<le> i \<and> int i < M \<longrightarrow> fn i = Inl (errs i)" and "int a \<le> M"
  shows "withRetry_loop fn M B a le tr =
     (Inl (if int a < M then errs (nat M - 1)
           else (case le of Some e \<Rightarrow> e | None \<Rightarrow> Error ''All retry attempts failed'')),
      tr @ failed_attempts B a (nat M))"
  using assms
proof (induction "nat M - a" arbitrary: a le tr)
  case 0
  then have "\<not> int a < M" by linarith
  moreover from 0 have "nat M = a" by linarith
  ultimately show ?case by (simp add: withRetry_loop.simps [of fn M B a])
next
  case (Suc n)
  then have lt: "int a < M" by linarith
  then have lt': "a < nat M" by linarith
  from Suc.prems lt have e: "fn a = Inl (errs a)" by simp
  have step: "withRetry_loop fn M B (Suc a) (Some (errs a)) (tr @ [Invoked a, Slept (B * 2 ^ a)]) =
     (Inl (if int (Suc a) < M then errs (nat M - 1)
           else (case Some (errs a) of Some e \<Rightarrow> e | None \<Rightarrow> Error ''All retry attempts failed'')),
      (tr @ [Invoked a, Slept (B * 2 ^ a)]) @ failed_attempts B (Suc a) (nat M))"
    using Suc.prems Suc.hyps(2) lt by (intro Suc.hyps(1)) auto
  have last: "\<not> int (Suc a) < M \<Longrightarrow> a = nat M - 1" using lt by linarith
  from lt e step last show ?case
    by (auto simp add: withRetry_loop.simps [of fn M B a] failed_attempts_step [OF lt'])
qed

lemma withRetry_loop_invocations:
  "invocations (snd (withRetry_loop fn M B a le tr)) \<le> invocations tr + (nat M - a)"
proof (induction "nat M - a" arbitrary: a le tr)
  case 0
  then have "\<not> int a < M" by linarith
  then show ?case by (simp add: withRetry_loop.simps [of fn M B a])
next
  case (Suc n)
  then have lt: "int a < M" by linarith
  show ?case
  proof (cases "fn a")
    case (Inr v)
    with lt Suc.hyps(2) show ?thesis
      by (simp add: withRetry_loop.simps [of fn M B a] invocations_def)
  next
    case (Inl e)
    have "invocations (snd (withRetry_loop fn M B (Suc a) (Some e)
              (tr @ [Invoked a, Slept (B * 2 ^ a)])))
          \<le> invocations (tr @ [Invoked a, Slept (B * 2 ^ a)]) + (nat M - Suc a)"
      using Suc.hyps(2) by (intro Suc.hyps(1)) linarith
    with lt Inl Suc.hyps(2) show ?thesis
      by (simp add: withRetry_loop.simps [of fn M B a] invocations_def)
  qed
qed

section \<open>The JSON text of a conversation reads back as the conversation\<close>

lemma hex_value_hex_digit: "d < 16 \<Longrightarrow> hex_value (hex_digit d) = Some d"
  by (auto simp add: hex_value_def hex_digit_def Let_def)

lemma hex4_control:
  "n < 256 \<Longrightarrow> hex4 (CHR ''0'') (CHR ''0'') (hex_digit (n div 16)) (hex_digit (n mod 16)) = Some n"
proof -
  assume n: "n < 256"
  then have "n div 16 < 16" by simp
  then have a: "hex_value (hex_digit (n div 16)) = Some (n div 16)" by (rule hex_value_hex_digit)
  have b: "hex_value (hex_digit (n mod 16)) = Some (n mod 16)" by (rule hex_value_hex_digit) simp
  have z: "hex_value (CHR ''0'') = Some 0" by (simp add: hex_value_def)
  show ?thesis by (simp add: hex4_def a b z)
qed

lemma parse_chars_quote_char:
  "parse_chars (quote_char c @ t) =
     (case parse_chars t of None \<Rightarrow> None | Some (s, r) \<Rightarrow> Some (c # s, r))"
proof -
  have n: "(of_char c :: nat) < 256" by simp
  have u: "hex4 (CHR ''0'') (CHR ''0'') (hex_digit ((of_char c :: nat) div 16))
             (hex_digit ((of_char c :: nat) mod 16)) = Some (of_char c)"
    using hex4_control [OF n] .
  show ?thesis
    by (simp add: quote_char_def unescape_def u split: option.splits)
qed

lemma parse_chars_quoted:
  "parse_chars (concat (map quote_char s) @ CHR 0x22 # rest) = Some (s, rest)"
  by (induction s) (simp_all add: parse_chars_quote_char)



lemma expect_append [simp]: "expect p (p @ r) = Some r"
  by (simp add: expect_def)

lemma digits_all_digit: "\<forall>c \<in> set (digits n). is_digit c"
proof (induction n rule: digits.induct)
  case (1 n)
  show ?case
  proof (cases "n < 10")
    case True
    then show ?thesis
      by (simp add: digits.simps [of n] is_digit_def digit_char_def)
  next
    case False
    have "n mod 10 < 10" by simp
    then have "is_digit (digit_char (n mod 10))"
      by (simp add: is_digit_def digit_char_def)
    with False 1 show ?thesis
      by (simp add: digits.simps [of n])
  qed
qed

lemma digits_nonempty: "digits n \<noteq> []"
  by (simp add: digits.simps [of n])

lemma digits_value_snoc:
  "digits_value (ds @ [c]) = 10 * digits_value ds + (of_char c - 48)"
  by (simp add: digits_value_def)

lemma digit_char_value: "d < 10 \<Longrightarrow> (of_char (digit_char d) :: nat) - 48 = d"
  by (simp add: digit_char_def)

lemma digits_value_digits: "digits_value (digits n) = n"
proof (induction n rule: digits.induct)
  case (1 n)
  show ?case
  proof (cases "n < 10")
    case True
    then show ?thesis
      by (simp add: digits.simps [of n] digits_value_def digit_char_value)
  next
    case False
    have "n mod 10 < 10" by simp
    then have "(of_char (digit_char (n mod 10)) :: nat) - 48 = n mod 10"
      by (rule digit_char_value)
    with False 1 show ?thesis
      by (simp add: digits.simps [of n] digits_value_snoc)
  qed
qed

lemma digits_no_leading_zero: "0 < n \<Longrightarrow> hd (digits n) \<noteq> CHR ''0''"
proof (induction n rule: digits.induct)
  case (1 n)
  show ?case
  proof (cases "n < 10")
    case True
    with 1(2) have "(of_char (digit_char n) :: nat) \<noteq> 48"
      by (simp add: digit_char_def)
    then have "digit_char n \<noteq> CHR ''0''" by auto
    with True show ?thesis by (simp add: digits.simps [of n])
  next
    case False
    then have "0 < n div 10" by simp
    with False 1 have "hd (digits (n div 10)) \<noteq> CHR ''0''" by simp
    with False show ?thesis
      by (simp add: digits.simps [of n] digits_nonempty)
  qed
qed

lemma digits_single_zero: "1 < length (digits n) \<Longrightarrow> hd (digits n) \<noteq> CHR ''0''"
proof -
  assume len: "1 < length (digits n)"
  have "0 < n"
  proof (rule ccontr)
    assume "\<not> 0 < n"
    then have "digits n = [digit_char 0]" by (simp add: digits.simps [of 0])
    with len show False by simp
  qed
  then show ?thesis by (rule digits_no_leading_zero)
qed

lemma parse_nat_digits:
  assumes "rest = [] \<or> \<not> is_digit (hd rest)"
  shows "parse_nat (digits n @ rest) = Some (n, rest)"
proof -
  from assms have r: "takeWhile is_digit rest = []" "dropWhile is_digit rest = rest"
    by (cases rest; simp)+
  have t: "takeWhile is_digit (digits n @ rest) = digits n"
    using digits_all_digit [of n] r by (simp add: takeWhile_append2)
  have d: "dropWhile is_digit (digits n @ rest) = rest"
    using digits_all_digit [of n] r by (simp add: dropWhile_append2)
  show ?thesis
    using digits_single_zero [of n]
    by (auto simp add: parse_nat_def t d Let_def digits_nonempty digits_value_digits)
qed

lemma role_of_role_name [simp]: "role_of_name (role_name r) = Some r"
  by (cases r) (simp_all add: role_of_name_def)

lemma parse_message_stringify:
  "parse_message (stringify_message m @ rest) = Some (m, rest)"
proof (cases "name m")
  case None
  then have m: "\<lparr>role = role m, content = content m, name = None\<rparr> = m" by (cases m) simp
  show ?thesis
    by (simp add: parse_message_def stringify_message_def stringify_string_def json_key_def
        None expect_def parse_chars_quoted m)
next
  case (Some n)
  then have m: "\<lparr>role = role m, content = content m, name = Some n\<rparr> = m" by (cases m) simp
  show ?thesis
    by (simp add: parse_message_def stringify_message_def stringify_string_def json_key_def
        Some expect_def parse_chars_quoted m)
qed

lemma length_stringify_elems: "length ms \<le> length (stringify_elems ms)"
proof (induction ms rule: stringify_elems.induct)
  case 1
  show ?case by simp
next
  case (2 m)
  show ?case by (simp add: stringify_message_def)
next
  case (3 m v va)
  then show ?case by simp
qed

lemma parse_elems_stringify:
  "ms \<noteq> [] \<Longrightarrow> length ms \<le> fuel \<Longrightarrow>
     parse_elems fuel (stringify_elems ms @ CHR '']'' # rest) = Some (ms, rest)"
proof (induction ms arbitrary: fuel rule: stringify_elems.induct)
  case 1
  then show ?case by simp
next
  case (2 m)
  then obtain k where "fuel = Suc k" by (cases fuel) auto
  then show ?case by (simp add: parse_message_stringify)
next
  case (3 m v va)
  then obtain k where k: "fuel = Suc k" by (cases fuel) auto
  with 3 have "parse_elems k (stringify_elems (v # va) @ CHR '']'' # rest) = Some (v # va, rest)"
    by simp
  with k show ?case by (simp add: parse_message_stringify)
qed

lemma parse_messages_stringify:
  "parse_messages (stringify_messages ms @ rest) = Some (ms, rest)"
proof (cases ms)
  case Nil
  then show ?thesis by (simp add: parse_messages_def stringify_messages_def expect_def)
next
  case (Cons m ms')
  have ne: "expect ''[]'' (stringify_messages ms @ rest) = None"
    by (cases ms') (simp_all add: Cons expect_def stringify_messages_def stringify_message_def)
  have "length ms \<le> length (stringify_elems ms @ CHR '']'' # rest)"
    using length_stringify_elems [of ms] by simp
  then have "parse_elems (length (stringify_elems ms @ CHR '']'' # rest))
      (stringify_elems ms @ CHR '']'' # rest) = Some (ms, rest)"
    using Cons by (intro parse_elems_stringify) simp_all
  with ne show ?thesis
    by (simp add: parse_messages_def stringify_messages_def expect_def)
qed

lemma parse_conv_stringify: "parse_conv (stringify_conv c) = Some c"
proof (cases "summary c")
  case None
  then have c: "\<lparr>messages = messages c, summary = None, createdAt = createdAt c,
      updatedAt = updatedAt c\<rparr> = c" by (cases c) simp
  show ?thesis
    by (simp add: parse_conv_def stringify_conv_def None json_key_def expect_def
        parse_messages_stringify parse_nat_digits is_digit_def c)
next
  case (Some t)
  then have c: "\<lparr>messages = messages c, summary = Some t, createdAt = createdAt c,
      updatedAt = updatedAt c\<rparr> = c" by (cases c) simp
  show ?thesis
    by (simp add: parse_conv_def stringify_conv_def Some json_key_def expect_def
        stringify_string_def parse_chars_quoted
        parse_messages_stringify parse_nat_digits is_digit_def c)
qed


section \<open>The client's memory writes leave the call log and the callback log alone\<close>

lemma addMessage_calls [simp]: "calls (snd (addMessage w cid m)) = calls w"
  by (simp add: addMessage_def saveConversation_def setWithExpiry_def kv_set_def Let_def
      split: sum.splits prod.splits if_splits)

lemma addMessage_delivered [simp]: "delivered (snd (addMessage w cid m)) = delivered w"
  by (simp add: addMessage_def saveConversation_def setWithExpiry_def kv_set_def Let_def
      split: sum.splits prod.splits if_splits)

lemma save_reply_calls [simp]: "calls (save_reply u cid r w) = calls w"
  by (simp add: save_reply_def)

lemma save_reply_delivered [simp]: "delivered (save_reply u cid r w) = delivered w"
  by (simp add: save_reply_def)

lemma prepare_request_calls:
  "prepare_request c w prompt options = (u, req, w1) \<Longrightarrow> calls w1 = calls w"
  by (auto simp add: prepare_request_def Let_def)

lemma prepare_request_delivered:
  "prepare_request c w prompt options = (u, req, w1) \<Longrightarrow> delivered w1 = delivered w"
  by (auto simp add: prepare_request_def Let_def)

lemma generate_fallbacks_all_fail:
  "\<forall>p \<in> set ps. \<exists>e. generateResponse p req = Inl e \<Longrightarrow>
     fst (generate_fallbacks u cid req i ps w) = None"
  by (induction ps arbitrary: i w) (auto simp add: Let_def)

lemma generate_never_throws:
  "\<exists>r. fst (LLMClient_generateResponse c w prompt options) = Inr r"
  by (cases "generateResponse_body c w prompt options")
    (auto simp add: LLMClient_generateResponse_def try_catch_def split: sum.splits)

section \<open>Providers: retries that all fail, and streams\<close>

lemma withRetry_default_fails:
  assumes "\<forall>i<3. \<exists>e. fn i = Inl e"
  shows "\<exists>e. fst (withRetry_default fn) = Inl e"
proof -
  have "\<forall>i. 0 \<le> i \<and> int i < 3 \<longrightarrow> fn i = Inl (projl (fn i))"
    using assms by (auto simp add: numeral_3_eq_3)
  then have "withRetry_loop fn 3 1000 0 None [] =
     (Inl (if int 0 < 3 then projl (fn (nat 3 - 1))
           else (case None of Some e \<Rightarrow> e | None \<Rightarrow> Error ''All retry attempts failed'')),
      [] @ failed_attempts 1000 0 (nat 3))"
    by (intro withRetry_loop_exhausted) auto
  then show ?thesis by (simp add: withRetry_default_def withRetry_def)
qed

lemma try_catch_recovers: "\<exists>s. try_catch r (\<lambda>e. Inr a) = Inr s"
  by (cases r) (simp_all add: try_catch_def)

lemma try_catch_failed: "r = Inl e \<Longrightarrow> try_catch (bind_result r f) (\<lambda>e. Inr a) = Inr a"
  by (simp add: try_catch_def bind_result_def)


lemma well_terminated_single: "chunk_done c \<Longrightarrow> well_terminated [c]"
  by (simp add: well_terminated_def)
















section \<open>The provider registry\<close>


lemma registry_ok_getProvider: "registry_ok f \<Longrightarrow> registry_ok (snd (getProvider f p m))"
  unfolding registry_ok_def getProvider_def
  by (auto split: option.splits sum.splits simp add: less_Suc_eq)

lemma registry_ok_resolve_all: "registry_ok f \<Longrightarrow> registry_ok (resolve_all f history)"
  by (induction history arbitrary: f) (auto simp add: registry_ok_getProvider)
























section \<open>The keyed store and the conversation memory\<close>

text \<open>
  On a reachable store a conversation is written as its JSON text, which parses back to
  the conversation; the client reads that text back as the object, whose conversion to a
  string is not JSON, so \<open>getAndParse\<close> catches the parse error and returns null.
\<close>

lemma JSON_roundtrip: "JSON_parse (JSON_stringify c) = Inr c"
  by (simp add: JSON_parse_def JSON_stringify_def parse_conv_stringify)

lemma deserialize_stringify: "deserialize (JSON_stringify c) = KvObject c"
  by (simp add: deserialize_def JSON_stringify_def parse_conv_stringify)

lemma JSON_parse_object_string: "JSON_parse ''[object Object]'' = Inl (Error ''SyntaxError'')"
  by (simp add: JSON_parse_def parse_conv_def expect_def json_key_def)

lemma setWithExpiry_up:
  "kv_up w \<Longrightarrow>
     setWithExpiry w key c ttl = (True, w\<lparr>kv := (kv w)(key \<mapsto> (JSON_stringify c, ttl))\<rparr>)"
  by (simp add: setWithExpiry_def kv_set_def)

lemma getAndParse_stored:
  "kv_up w \<Longrightarrow> kv w key = Some (JSON_stringify c, ttl) \<Longrightarrow> getAndParse w key = None"
  by (simp add: getAndParse_def kv_get_def deserialize_stringify JSON_parse_object_string)

lemma getAndParse_after_set:
  "kv_up w \<Longrightarrow> getAndParse (snd (setWithExpiry w key c ttl)) key = None"
  by (simp add: setWithExpiry_up getAndParse_stored)

lemma saveConversation_up:
  assumes "kv_up w"
  shows "saveConversation w cid c =
     (True, c\<lparr>updatedAt := now w\<rparr>,
      w\<lparr>kv := (kv w)(getRedisKey cid \<mapsto>
        (JSON_stringify (c\<lparr>updatedAt := now w\<rparr>), MEMORY_EXPIRY_SECONDS))\<rparr>)"
  using assms by (simp add: saveConversation_def Let_def setWithExpiry_up)

lemma load_after_save:
  "kv_up w \<Longrightarrow> loadConversation (snd (snd (saveConversation w cid c))) cid = None"
  by (simp add: saveConversation_up loadConversation_def getAndParse_stored)

lemma addMessage_up:
  assumes "kv_up w"
  shows "fst (addMessage w cid m) =
           Some ((updated_conversation (now w) (loadConversation w cid) m)\<lparr>updatedAt := now w\<rparr>)"
    and "loadConversation (snd (addMessage w cid m)) cid = None"
    and "kv_up (snd (addMessage w cid m))"
    and "now (snd (addMessage w cid m)) = now w"
  using assms
  by (simp_all add: addMessage_def Let_def saveConversation_up loadConversation_def
      getAndParse_stored)

lemma appends_up: "kv_up w \<Longrightarrow> kv_up (appends w cid tms)"
  by (induction tms arbitrary: w) (auto simp add: addMessage_up)

lemma load_appends:
  "kv_up w \<Longrightarrow> tms \<noteq> [] \<Longrightarrow> loadConversation (appends w cid tms) cid = None"
proof (induction tms arbitrary: w)
  case Nil
  then show ?case by simp
next
  case (Cons tm tms)
  obtain t m where tm: "tm = (t, m)" by (cases tm)
  have up: "kv_up (w\<lparr>now := t\<rparr>)" using Cons.prems by simp
  let ?w = "snd (addMessage (w\<lparr>now := t\<rparr>) cid m)"
  have up': "kv_up ?w" using up by (rule addMessage_up)
  show ?case
  proof (cases "tms = []")
    case True
    then show ?thesis using addMessage_up(2) [OF up, of cid m] by (simp add: tm)
  next
    case False
    with Cons.IH [OF up'] show ?thesis by (simp add: tm)
  qed
qed

lemma js_slice_from_negative:
  "0 < k \<Longrightarrow> js_slice_from (- int k) xs = drop (length xs - k) xs"
  by (simp add: js_slice_from_def Let_def max_def nat_diff_distrib' of_nat_diff)

lemma prune_small: "length msgs \<le> MAX_MESSAGES_TO_KEEP \<Longrightarrow> prune msgs = msgs"
  by (simp add: prune_def)

lemma prune_large:
  assumes "MAX_MESSAGES_TO_KEEP < length msgs"
  shows "prune msgs =
     (if role (hd msgs) = System then hd msgs # drop (length msgs - 49) msgs
      else drop (length msgs - 50) msgs)"
proof -
  from assms have ne: "msgs \<noteq> []" by auto
  then have h: "msgs ! 0 = hd msgs" by (simp add: hd_conv_nth)
  have a: "js_slice_from (- int MAX_MESSAGES_TO_KEEP + int (length [hd msgs])) msgs =
      drop (length msgs - 49) msgs"
    using js_slice_from_negative [of 49 msgs] by (simp add: MAX_MESSAGES_TO_KEEP_def)
  have b: "js_slice_from (- int MAX_MESSAGES_TO_KEEP + int (length ([] :: LLMMessage list))) msgs =
      drop (length msgs - 50) msgs"
    using js_slice_from_negative [of 50 msgs] by (simp add: MAX_MESSAGES_TO_KEEP_def)
  from assms a b show ?thesis by (simp add: prune_def Let_def h)
qed

lemma length_prune: "length (prune msgs) = min (length msgs) MAX_MESSAGES_TO_KEEP"
proof (cases "MAX_MESSAGES_TO_KEEP < length msgs")
  case True
  then show ?thesis
    by (simp add: prune_large) (simp add: MAX_MESSAGES_TO_KEEP_def)
next
  case False
  then show ?thesis by (simp add: prune_small)
qed

lemma updated_fresh:
  "updated_conversation t None m = \<lparr>messages = [m], summary = None, createdAt = t, updatedAt = t\<rparr>"
  by (simp add: updated_conversation_def Let_def prune_def MAX_MESSAGES_TO_KEEP_def
      SUMMARY_MESSAGE_THRESHOLD_def)

lemma summary_kept_by_block:
  "truthy (summary c) \<Longrightarrow> summary (updated_conversation t (Some c) m) = summary c"
  by (simp add: updated_conversation_def Let_def)

lemma summary_made_by_block:
  "\<not> truthy (summary c) \<Longrightarrow> length (messages c) = 9 \<Longrightarrow>
     summary (updated_conversation t (Some c) m) =
       Some (generateConversationSummary (messages c @ [m]))"
  by (simp add: updated_conversation_def Let_def prune_def MAX_MESSAGES_TO_KEEP_def
      SUMMARY_MESSAGE_THRESHOLD_def)

lemma addMessage_fresh:
  assumes "kv_up w" and "loadConversation w cid = None"
  shows "fst (addMessage w cid m) =
     Some \<lparr>messages = [m], summary = None, createdAt = now w, updatedAt = now w\<rparr>"
  using addMessage_up(1) [OF assms(1), of cid m] assms(2) by (simp add: updated_fresh)

lemma addMessage_after_appends:
  assumes "kv_up w" and "tms \<noteq> [] \<or> loadConversation w cid = None"
  shows "fst (addMessage (appends w cid tms) cid m) =
     Some \<lparr>messages = [m], summary = None, createdAt = now (appends w cid tms),
           updatedAt = now (appends w cid tms)\<rparr>"
proof -
  have up: "kv_up (appends w cid tms)" using assms(1) by (rule appends_up)
  have "loadConversation (appends w cid tms) cid = None"
  proof (cases "tms = []")
    case True
    with assms(2) show ?thesis by simp
  next
    case False
    with assms(1) show ?thesis by (rule load_appends)
  qed
  with up show ?thesis by (rule addMessage_fresh)
qed

lemma test_world_up: "kv_up test_world"
  by (simp add: test_world_def)

lemma test_world_empty: "loadConversation test_world cid = None"
  by (simp add: test_world_def loadConversation_def getAndParse_def kv_get_def)


section \<open>Claims\<close>

text \<open>
  C1. When the primary provider and every fallback provider reject whatever request they
  are given, \<open>LLMClient.generateResponse\<close> returns the apology string; and whatever the
  providers do, it returns a string and throws nothing.
\<close>

theorem generate_all_providers_fail:
  "((\<forall>req. \<exists>e. generateResponse (provider c) req = Inl e) \<and>
    (\<forall>p \<in> set (fallbackProviders c). \<forall>req. \<exists>e. generateResponse p req = Inl e) \<longrightarrow>
      fst (LLMClient_generateResponse c w prompt options) = Inr generate_apology)
   \<and> (\<exists>r. fst (LLMClient_generateResponse c w prompt options) = Inr r)"
proof (intro conjI impI)
  assume a: "(\<forall>req. \<exists>e. generateResponse (provider c) req = Inl e) \<and>
    (\<forall>p \<in> set (fallbackProviders c). \<forall>req. \<exists>e. generateResponse p req = Inl e)"
  obtain u req w1 where p: "prepare_request c w prompt options = (u, req, w1)"
    by (cases "prepare_request c w prompt options") auto
  from a obtain e where e: "generateResponse (provider c) req = Inl e" by blast
  from a have "\<forall>p \<in> set (fallbackProviders c). \<exists>e. generateResponse p req = Inl e" by blast
  then have "fst (generate_fallbacks u (conversationId c) req 0 (fallbackProviders c)
      (log_call (GenerateCall Primary req) w1)) = None"
    by (rule generate_fallbacks_all_fail)
  then obtain w3 where "generate_fallbacks u (conversationId c) req 0 (fallbackProviders c)
      (log_call (GenerateCall Primary req) w1) = (None, w3)"
    by (cases "generate_fallbacks u (conversationId c) req 0 (fallbackProviders c)
      (log_call (GenerateCall Primary req) w1)") auto
  with p e show "fst (LLMClient_generateResponse c w prompt options) = Inr generate_apology"
    by (simp add: LLMClient_generateResponse_def generateResponse_body_def try_catch_def Let_def)
next
  show "\<exists>r. fst (LLMClient_generateResponse c w prompt options) = Inr r"
    by (rule generate_never_throws)
qed

theorem generate_all_providers_fail_witness:
  "fst (LLMClient_generateResponse
      \<lparr>provider = mockPrimaryProvider, conversationId = ''test-conversation'',
       fallbackProviders = [mockPrimaryProvider, mockPrimaryProvider]\<rparr>
      test_world ''Test prompt'' no_options) = Inr generate_apology"
  using generate_all_providers_fail
    [of "\<lparr>provider = mockPrimaryProvider, conversationId = ''test-conversation'',
       fallbackProviders = [mockPrimaryProvider, mockPrimaryProvider]\<rparr>"
      test_world "''Test prompt''" no_options]
  by (simp add: mockPrimaryProvider_def)

text \<open>
  C2. With a primary provider that always rejects and one fallback provider that always
  resolves with "Fallback response", \<open>LLMClient.generateResponse\<close> returns
  "Fallback response", and the call adds exactly two invocations to the log: one of the
  primary and then one of the fallback, with the same request.
\<close>

theorem generate_uses_fallback:
  "(\<forall>req. \<exists>e. generateResponse (provider c) req = Inl e) \<and> fallbackProviders c = [fb] \<and>
   (\<forall>req. generateResponse fb req = Inr ''Fallback response'') \<longrightarrow>
     fst (LLMClient_generateResponse c w prompt options) = Inr ''Fallback response'' \<and>
     (\<exists>req. calls (snd (LLMClient_generateResponse c w prompt options)) =
        calls w @ [GenerateCall Primary req, GenerateCall (Fallback 0) req])"
proof
  assume a: "(\<forall>req. \<exists>e. generateResponse (provider c) req = Inl e) \<and> fallbackProviders c = [fb] \<and>
   (\<forall>req. generateResponse fb req = Inr ''Fallback response'')"
  obtain u req w1 where p: "prepare_request c w prompt options = (u, req, w1)"
    by (cases "prepare_request c w prompt options") auto
  from a obtain e where e: "generateResponse (provider c) req = Inl e" by blast
  from a have f: "generateResponse fb req = Inr ''Fallback response''" by blast
  from a have fbs: "fallbackProviders c = [fb]" by blast
  have c1: "calls w1 = calls w" using p by (rule prepare_request_calls)
  have r: "fst (LLMClient_generateResponse c w prompt options) = Inr ''Fallback response''"
    using p e f fbs
    by (simp add: LLMClient_generateResponse_def generateResponse_body_def try_catch_def Let_def)
  have l: "calls (snd (LLMClient_generateResponse c w prompt options)) =
        calls w @ [GenerateCall Primary req, GenerateCall (Fallback 0) req]"
    using p e f fbs c1
    by (simp add: LLMClient_generateResponse_def generateResponse_body_def try_catch_def Let_def
        log_call_def)
  from r l show "fst (LLMClient_generateResponse c w prompt options) = Inr ''Fallback response'' \<and>
     (\<exists>req. calls (snd (LLMClient_generateResponse c w prompt options)) =
        calls w @ [GenerateCall Primary req, GenerateCall (Fallback 0) req])" by blast
qed


theorem generate_uses_fallback_witness:
  "fst (LLMClient_generateResponse
      \<lparr>provider = mockPrimaryProvider, conversationId = ''test-conversation'',
       fallbackProviders = [mockFallbackProvider]\<rparr>
      test_world ''Test prompt'' no_options) = Inr ''Fallback response'' \<and>
   (\<exists>req. calls (snd (LLMClient_generateResponse
      \<lparr>provider = mockPrimaryProvider, conversationId = ''test-conversation'',
       fallbackProviders = [mockFallbackProvider]\<rparr>
      test_world ''Test prompt'' no_options)) =
        [GenerateCall Primary req, GenerateCall (Fallback 0) req])"
  using generate_uses_fallback
    [of "\<lparr>provider = mockPrimaryProvider, conversationId = ''test-conversation'',
       fallbackProviders = [mockFallbackProvider]\<rparr>" mockFallbackProvider
      test_world "''Test prompt''" no_options]
  by (simp add: mockPrimaryProvider_def mockFallbackProvider_def test_world_def)

text \<open>
  C3. Appending to a conversation never accumulates messages in the store. After one or
  more appends on a reachable store, loading the conversation returns null (the store's
  client has already deserialised the saved text, and \<open>getAndParse\<close> parses it again), so
  the next append starts from an empty conversation: it returns and saves a record
  holding the appended message alone, with no summary. The pruning step of \<open>addMessage\<close>
  itself keeps at most \<open>MAX_MESSAGES_TO_KEEP\<close> (50) messages of the list it is given.
\<close>

theorem appends_never_accumulate:
  "(kv_up w \<and> tms \<noteq> [] \<longrightarrow>
      loadConversation (appends w cid tms) cid = None \<and>
      fst (addMessage (appends w cid tms) cid m) =
        Some \<lparr>messages = [m], summary = None, createdAt = now (appends w cid tms),
              updatedAt = now (appends w cid tms)\<rparr>)
   \<and> length (prune msgs) = min (length msgs) MAX_MESSAGES_TO_KEEP"
proof (intro conjI impI)
  assume a: "kv_up w \<and> tms \<noteq> []"
  then show "loadConversation (appends w cid tms) cid = None" by (simp add: load_appends)
  from a show "fst (addMessage (appends w cid tms) cid m) =
        Some \<lparr>messages = [m], summary = None, createdAt = now (appends w cid tms),
              updatedAt = now (appends w cid tms)\<rparr>"
    by (intro addMessage_after_appends) simp_all
next
  show "length (prune msgs) = min (length msgs) MAX_MESSAGES_TO_KEEP" by (rule length_prune)
qed

theorem appends_never_accumulate_witness:
  "loadConversation (appends test_world ''c'' (replicate 51 (0, userU))) ''c'' = None \<and>
   map_option messages
     (fst (addMessage (appends test_world ''c'' (replicate 50 (0, userU))) ''c'' userU)) =
     Some [userU]"
proof
  from appends_never_accumulate [of test_world "replicate 51 (0, userU)" "''c''" userU "[]"]
  show "loadConversation (appends test_world ''c'' (replicate 51 (0, userU))) ''c'' = None"
    by (simp add: test_world_up)
next
  from appends_never_accumulate [of test_world "replicate 50 (0, userU)" "''c''" userU "[]"]
  show "map_option messages
     (fst (addMessage (appends test_world ''c'' (replicate 50 (0, userU))) ''c'' userU)) =
     Some [userU]"
    by (simp add: test_world_up)
qed

text \<open>
  C4. No append on a reachable store returns or saves a summary. When the conversation
  loads as null before the appends, every later append returns the appended message
  alone with no summary, and the conversation loads as null after it; an append that
  follows a saved conversation, whatever its summary, returns a record with no summary.
  The summary step of \<open>addMessage\<close> itself, given a loaded conversation, keeps a non-empty
  summary, and generates one when there is none and the append makes ten messages.
\<close>

theorem summary_never_stored:
  "(kv_up w \<and> loadConversation w cid = None \<longrightarrow>
      map_option messages (fst (addMessage (appends w cid tms) cid m)) = Some [m] \<and>
      map_option summary (fst (addMessage (appends w cid tms) cid m)) = Some None \<and>
      loadConversation (snd (addMessage (appends w cid tms) cid m)) cid = None)
   \<and> (kv_up w \<longrightarrow>
        map_option summary (fst (addMessage (snd (snd (saveConversation w cid c))) cid m)) =
          Some None)
   \<and> (truthy (summary c) \<longrightarrow> summary (updated_conversation t (Some c) m) = summary c)
   \<and> (\<not> truthy (summary c) \<and> length (messages c) = 9 \<longrightarrow>
        summary (updated_conversation t (Some c) m) =
          Some (generateConversationSummary (messages c @ [m])))"
proof (intro conjI impI)
  assume a: "kv_up w \<and> loadConversation w cid = None"
  then have r: "fst (addMessage (appends w cid tms) cid m) =
     Some \<lparr>messages = [m], summary = None, createdAt = now (appends w cid tms),
           updatedAt = now (appends w cid tms)\<rparr>"
    by (intro addMessage_after_appends) simp_all
  from r show "map_option messages (fst (addMessage (appends w cid tms) cid m)) = Some [m]"
    by simp
  from r show "map_option summary (fst (addMessage (appends w cid tms) cid m)) = Some None"
    by simp
  from a have "kv_up (appends w cid tms)" by (simp add: appends_up)
  then show "loadConversation (snd (addMessage (appends w cid tms) cid m)) cid = None"
    by (rule addMessage_up)
next
  assume up: "kv_up w"
  let ?w = "snd (snd (saveConversation w cid c))"
  have "kv_up ?w" using up by (simp add: saveConversation_up)
  moreover have "loadConversation ?w cid = None" using up by (rule load_after_save)
  ultimately have "fst (addMessage ?w cid m) =
     Some \<lparr>messages = [m], summary = None, createdAt = now ?w, updatedAt = now ?w\<rparr>"
    by (rule addMessage_fresh)
  then show "map_option summary (fst (addMessage ?w cid m)) = Some None" by simp
next
  assume "truthy (summary c)"
  then show "summary (updated_conversation t (Some c) m) = summary c"
    by (rule summary_kept_by_block)
next
  assume "\<not> truthy (summary c) \<and> length (messages c) = 9"
  then show "summary (updated_conversation t (Some c) m) =
          Some (generateConversationSummary (messages c @ [m]))"
    by (simp add: summary_made_by_block)
qed

theorem summary_never_stored_witness:
  "map_option summary
     (fst (addMessage (appends test_world ''c'' (replicate 9 (0, userU))) ''c'' userU)) =
     Some None \<and>
   map_option summary (fst (addMessage (snd (snd (saveConversation test_world ''c''
      \<lparr>messages = replicate 10 userU, summary = Some ''topics'', createdAt = 5,
        updatedAt = 6\<rparr>))) ''c'' userU)) = Some None \<and>
   summary (updated_conversation 0
      (Some \<lparr>messages = replicate 10 userU, summary = Some ''topics'', createdAt = 5,
        updatedAt = 6\<rparr>) userU) = Some ''topics'' \<and>
   summary (updated_conversation 0
      (Some \<lparr>messages = replicate 9 userU, summary = None, createdAt = 5,
        updatedAt = 6\<rparr>) userU) =
     Some (generateConversationSummary (replicate 9 userU @ [userU]))"
proof (intro conjI)
  from summary_never_stored [of test_world "''c''" "replicate 9 (0, userU)" userU
      "\<lparr>messages = replicate 10 userU, summary = Some ''topics'', createdAt = 5,
        updatedAt = 6\<rparr>" 0]
  show "map_option summary
     (fst (addMessage (appends test_world ''c'' (replicate 9 (0, userU))) ''c'' userU)) =
     Some None"
    and "map_option summary (fst (addMessage (snd (snd (saveConversation test_world ''c''
      \<lparr>messages = replicate 10 userU, summary = Some ''topics'', createdAt = 5,
        updatedAt = 6\<rparr>))) ''c'' userU)) = Some None"
    and "summary (updated_conversation 0
      (Some \<lparr>messages = replicate 10 userU, summary = Some ''topics'', createdAt = 5,
        updatedAt = 6\<rparr>) userU) = Some ''topics''"
    by (simp_all add: test_world_up test_world_empty truthy_def)
next
  from summary_never_stored [of test_world "''c''" "[]" userU
      "\<lparr>messages = replicate 9 userU, summary = None, createdAt = 5, updatedAt = 6\<rparr>" 0]
  show "summary (updated_conversation 0
      (Some \<lparr>messages = replicate 9 userU, summary = None, createdAt = 5,
        updatedAt = 6\<rparr>) userU) =
     Some (generateConversationSummary (replicate 9 userU @ [userU]))"
    by (simp add: truthy_def)
qed
text \<open>
  C5. \<open>withRetry\<close> invokes the operation and returns its first successful result; after
  each failed attempt number \<open>i\<close> (from zero) it sleeps \<open>baseDelay * 2 ^ i\<close> before the next
  one; when all \<open>maxRetries\<close> attempts fail it throws the error of the last attempt; and
  the operation is invoked at most \<open>maxRetries\<close> times.
\<close>

theorem withRetry_contract:
  "((\<forall>i<k. \<exists>e. fn i = Inl e) \<and> fn k = Inr v \<and> int k < maxRetries \<longrightarrow>
      withRetry fn maxRetries baseDelay = (Inr v, failed_attempts baseDelay 0 k @ [Invoked k]))
   \<and> (0 < maxRetries \<and> (\<forall>i. int i < maxRetries \<longrightarrow> fn i = Inl (errs i)) \<longrightarrow>
      withRetry fn maxRetries baseDelay =
        (Inl (errs (nat maxRetries - 1)), failed_attempts baseDelay 0 (nat maxRetries)))
   \<and> invocations (snd (withRetry fn maxRetries baseDelay)) \<le> nat maxRetries
   \<and> sleeps (failed_attempts baseDelay 0 k) = map (\<lambda>i. baseDelay * 2 ^ i) [0..<k]"
proof (intro conjI impI)
  assume "(\<forall>i<k. \<exists>e. fn i = Inl e) \<and> fn k = Inr v \<and> int k < maxRetries"
  then show "withRetry fn maxRetries baseDelay = (Inr v, failed_attempts baseDelay 0 k @ [Invoked k])"
    using withRetry_loop_success [of 0 k fn v maxRetries baseDelay None "[]"]
    by (simp add: withRetry_def)
next
  assume "0 < maxRetries \<and> (\<forall>i. int i < maxRetries \<longrightarrow> fn i = Inl (errs i))"
  then show "withRetry fn maxRetries baseDelay =
        (Inl (errs (nat maxRetries - 1)), failed_attempts baseDelay 0 (nat maxRetries))"
    using withRetry_loop_exhausted [of 0 maxRetries fn errs baseDelay None "[]"]
    by (simp add: withRetry_def)
next
  show "invocations (snd (withRetry fn maxRetries baseDelay)) \<le> nat maxRetries"
    using withRetry_loop_invocations [of fn maxRetries baseDelay 0 None "[]"]
    by (simp add: withRetry_def invocations_def)
next
  show "sleeps (failed_attempts baseDelay 0 k) = map (\<lambda>i. baseDelay * 2 ^ i) [0..<k]"
    by (rule sleeps_failed_attempts)
qed

theorem withRetry_contract_witness:
  "withRetry (\<lambda>i. if i < 2 then Inl (Error ''boom'') else Inr (7::nat)) 3 1000 =
     (Inr 7, [Invoked 0, Slept 1000, Invoked 1, Slept 2000, Invoked 2])
   \<and> withRetry_default (\<lambda>i. Inl (Error (if i = 2 then ''last'' else ''early'')) :: error + nat) =
     (Inl (Error ''last''),
      [Invoked 0, Slept 1000, Invoked 1, Slept 2000, Invoked 2, Slept 4000])"
proof
  have upt2: "[0..<2] = [0, Suc 0]" by (simp add: upt_rec)
  show "withRetry (\<lambda>i. if i < 2 then Inl (Error ''boom'') else Inr (7::nat)) 3 1000 =
     (Inr 7, [Invoked 0, Slept 1000, Invoked 1, Slept 2000, Invoked 2])"
    using withRetry_contract [of 2 "\<lambda>i. if i < 2 then Inl (Error ''boom'') else Inr (7::nat)"
        7 3 1000 "\<lambda>i. Error ''boom''"]
    by (simp add: failed_attempts_def upt2)
next
  have upt3: "[0..<3] = [0, Suc 0, 2]" by (simp add: upt_rec)
  show "withRetry_default (\<lambda>i. Inl (Error (if i = 2 then ''last'' else ''early'')) :: error + nat) =
     (Inl (Error ''last''),
      [Invoked 0, Slept 1000, Invoked 1, Slept 2000, Invoked 2, Slept 4000])"
    using withRetry_contract [of 0 "\<lambda>i. Inl (Error (if i = 2 then ''last'' else ''early''))"
        "0::nat" 3 1000 "\<lambda>i. Error (if i = 2 then ''last'' else ''early'')"]
    by (simp add: withRetry_default_def failed_attempts_def upt3)
qed

text \<open>
  C6. With a provider whose stream yields "Stream ", "chunk ", "test" (only the last with
  \<open>done = true\<close>), \<open>LLMClient.generateStreamingResponse\<close> calls \<open>onChunk\<close> exactly three
  times, with these fragments and their \<open>done\<close> flags in this order, and returns
  "Stream chunk test".
\<close>

theorem streaming_aggregation:
  "(\<forall>req. generateStreamingResponse (provider c) req =
      ([\<lparr>chunk_content = ''Stream '', chunk_done = False\<rparr>,
        \<lparr>chunk_content = ''chunk '', chunk_done = False\<rparr>,
        \<lparr>chunk_content = ''test'', chunk_done = True\<rparr>], None)) \<longrightarrow>
     fst (LLMClient_generateStreamingResponse c w prompt options) = Inr ''Stream chunk test'' \<and>
     delivered (snd (LLMClient_generateStreamingResponse c w prompt options)) =
       delivered w @ [(''Stream '', False), (''chunk '', False), (''test'', True)]"
proof
  assume a: "\<forall>req. generateStreamingResponse (provider c) req =
      ([\<lparr>chunk_content = ''Stream '', chunk_done = False\<rparr>,
        \<lparr>chunk_content = ''chunk '', chunk_done = False\<rparr>,
        \<lparr>chunk_content = ''test'', chunk_done = True\<rparr>], None)"
  obtain u req w1 where p: "prepare_request c w prompt options = (u, req, w1)"
    by (cases "prepare_request c w prompt options") auto
  have d1: "delivered w1 = delivered w" using p by (rule prepare_request_delivered)
  from a have g: "generateStreamingResponse (provider c) req =
      ([\<lparr>chunk_content = ''Stream '', chunk_done = False\<rparr>,
        \<lparr>chunk_content = ''chunk '', chunk_done = False\<rparr>,
        \<lparr>chunk_content = ''test'', chunk_done = True\<rparr>], None)" by blast
  show "fst (LLMClient_generateStreamingResponse c w prompt options) = Inr ''Stream chunk test'' \<and>
     delivered (snd (LLMClient_generateStreamingResponse c w prompt options)) =
       delivered w @ [(''Stream '', False), (''chunk '', False), (''test'', True)]"
    using p g d1
    by (simp add: LLMClient_generateStreamingResponse_def generateStreamingResponse_body_def
        stream_attempt_def Let_def log_call_def)
qed

theorem streaming_aggregation_witness:
  "fst (LLMClient_generateStreamingResponse
      \<lparr>provider = mockStreamProvider, conversationId = ''test-conversation'',
       fallbackProviders = []\<rparr> test_world ''Test prompt'' no_options) = Inr ''Stream chunk test'' \<and>
   delivered (snd (LLMClient_generateStreamingResponse
      \<lparr>provider = mockStreamProvider, conversationId = ''test-conversation'',
       fallbackProviders = []\<rparr> test_world ''Test prompt'' no_options)) =
     [(''Stream '', False), (''chunk '', False), (''test'', True)]"
  using streaming_aggregation
    [of "\<lparr>provider = mockStreamProvider, conversationId = ''test-conversation'',
       fallbackProviders = []\<rparr>" test_world "''Test prompt''" no_options]
  by (simp add: mockStreamProvider_def test_world_def)

text \<open>
  C7. The buffered \<open>generateResponse\<close> of the Cohere, OpenRouter and GLHF providers never
  rejects: it always resolves with a string, and with the apology string when the request
  fails on each of the three attempts of the retry policy.
\<close>

theorem provider_generate_recovers:
  "(\<exists>s. Cohere_generateResponse env cfg options = Inr s) \<and>
   (\<exists>s. OpenRouter_generateResponse env cfg options = Inr s) \<and>
   (\<exists>s. GLHF_generateResponse env cfg options = Inr s) \<and>
   ((\<forall>rq. \<forall>i<3. \<exists>e. axios_post env rq i = Inl e) \<longrightarrow>
      Cohere_generateResponse env cfg options = Inr generate_apology \<and>
      OpenRouter_generateResponse env cfg options = Inr generate_apology \<and>
      GLHF_generateResponse env cfg options = Inr generate_apology)"
proof (intro conjI impI)
  show "\<exists>s. Cohere_generateResponse env cfg options = Inr s"
    unfolding Cohere_generateResponse_def by (rule try_catch_recovers)
  show "\<exists>s. OpenRouter_generateResponse env cfg options = Inr s"
    unfolding OpenRouter_generateResponse_def by (rule try_catch_recovers)
  show "\<exists>s. GLHF_generateResponse env cfg options = Inr s"
    unfolding GLHF_generateResponse_def by (rule try_catch_recovers)
next
  assume a: "\<forall>rq. \<forall>i<3. \<exists>e. axios_post env rq i = Inl e"
  then have "\<forall>i<3. \<exists>e. Cohere_makeRequest env cfg options i = Inl e"
    by (simp add: Cohere_makeRequest_def Let_def)
  then obtain e where "fst (withRetry_default (Cohere_makeRequest env cfg options)) = Inl e"
    using withRetry_default_fails by blast
  then show "Cohere_generateResponse env cfg options = Inr generate_apology"
    unfolding Cohere_generateResponse_def by (rule try_catch_failed)
next
  assume a: "\<forall>rq. \<forall>i<3. \<exists>e. axios_post env rq i = Inl e"
  then have "\<forall>i<3. \<exists>e. OpenRouter_makeRequest env cfg options i = Inl e"
    by (simp add: OpenRouter_makeRequest_def)
  then obtain e where "fst (withRetry_default (OpenRouter_makeRequest env cfg options)) = Inl e"
    using withRetry_default_fails by blast
  then show "OpenRouter_generateResponse env cfg options = Inr generate_apology"
    unfolding OpenRouter_generateResponse_def by (rule try_catch_failed)
next
  assume a: "\<forall>rq. \<forall>i<3. \<exists>e. axios_post env rq i = Inl e"
  then have "\<forall>i<3. \<exists>e. GLHF_makeRequest env cfg options i = Inl e"
    by (simp add: GLHF_makeRequest_def)
  then obtain e where "fst (withRetry_default (GLHF_makeRequest env cfg options)) = Inl e"
    using withRetry_default_fails by blast
  then show "GLHF_generateResponse env cfg options = Inr generate_apology"
    unfolding GLHF_generateResponse_def by (rule try_catch_failed)
qed

theorem provider_generate_recovers_witness:
  "Cohere_generateResponse unreachable_env openrouter_config hello_request = Inr generate_apology \<and>
   OpenRouter_generateResponse unreachable_env openrouter_config hello_request = Inr generate_apology \<and>
   GLHF_generateResponse unreachable_env openrouter_config hello_request = Inr generate_apology"
  using provider_generate_recovers [of unreachable_env openrouter_config hello_request]
  by (simp add: unreachable_env_def)





text \<open>
  C9. Saving and then loading a conversation does not return it. The JSON text of a
  conversation parses back to it, and on a reachable store \<open>setWithExpiry\<close> and
  \<open>saveConversation\<close> succeed and store that text (of the record with \<open>updatedAt\<close> set to
  the time of saving); but \<open>getAndParse\<close> of the key and \<open>loadConversation\<close> of the
  conversation then return null, because the store's client returns the deserialised
  object and \<open>JSON.parse\<close> is applied to it again.
\<close>

theorem saved_conversation_loads_null:
  "JSON_parse (JSON_stringify c) = Inr c \<and>
   (kv_up w \<longrightarrow>
      fst (setWithExpiry w key c ttl) \<and>
      kv (snd (setWithExpiry w key c ttl)) key = Some (JSON_stringify c, ttl) \<and>
      getAndParse (snd (setWithExpiry w key c ttl)) key = None \<and>
      fst (saveConversation w cid c) \<and>
      fst (snd (saveConversation w cid c)) = c\<lparr>updatedAt := now w\<rparr> \<and>
      loadConversation (snd (snd (saveConversation w cid c))) cid = None)"
proof (intro conjI impI)
  show "JSON_parse (JSON_stringify c) = Inr c" by (rule JSON_roundtrip)
next
  assume up: "kv_up w"
  then show "fst (setWithExpiry w key c ttl)" by (simp add: setWithExpiry_up)
  from up show "kv (snd (setWithExpiry w key c ttl)) key = Some (JSON_stringify c, ttl)"
    by (simp add: setWithExpiry_up)
  from up show "getAndParse (snd (setWithExpiry w key c ttl)) key = None"
    by (rule getAndParse_after_set)
  from up show "fst (saveConversation w cid c)" by (simp add: saveConversation_up)
  from up show "fst (snd (saveConversation w cid c)) = c\<lparr>updatedAt := now w\<rparr>"
    by (simp add: saveConversation_up)
  from up show "loadConversation (snd (snd (saveConversation w cid c))) cid = None"
    by (rule load_after_save)
qed

theorem saved_conversation_loads_null_witness:
  "fst (saveConversation test_world ''test-conversation''
      \<lparr>messages = [sysA, userU], summary = Some ''topics'', createdAt = 5, updatedAt = 6\<rparr>) \<and>
   loadConversation (snd (snd (saveConversation test_world ''test-conversation''
      \<lparr>messages = [sysA, userU], summary = Some ''topics'', createdAt = 5, updatedAt = 6\<rparr>)))
      ''test-conversation'' = None"
  using saved_conversation_loads_null [of
      "\<lparr>messages = [sysA, userU], summary = Some ''topics'', createdAt = 5, updatedAt = 6\<rparr>"
      test_world "''k''" 0 "''test-conversation''"]
  by (simp add: test_world_up)



end
